theory Spec2Isabelle
  imports Main
begin

section \<open>Vendor master-data service: a shallow embedding\<close>

text \<open>
  The development follows the three layers of the service: the repository
  (\<^verbatim>\<open>internal/repository/vendor_repository.go\<close>), whose SQL statements run
  against the schema of the migration, the service layer (\<^verbatim>\<open>package service\<close>)
  and the two transport adapters (\<^verbatim>\<open>package handler\<close>, HTTP and gRPC).

  Conventions of the embedding.
  \<^item> A Go \<^verbatim>\<open>string\<close> is a \<open>string\<close> (a list of bytes); a \<^verbatim>\<open>*string\<close> or
    \<^verbatim>\<open>*int64\<close> is an \<open>option\<close>, \<open>None\<close> for \<^verbatim>\<open>nil\<close> and SQL \<^verbatim>\<open>NULL\<close>.
  \<^item> An \<^verbatim>\<open>int64\<close> / \<^verbatim>\<open>BIGINT\<close> is an \<open>int\<close>. The Go code never does
    arithmetic on such a value; the one addition is done by the store, which
    rejects a result outside the 64-bit range, and that check is written out.
  \<^item> The store is a record of its tables, each a list of rows in insertion
    order. A statement either changes the store or fails with a \<open>pg_error\<close> and
    leaves it as it was. The model holds the constraints the schema declares:
    primary keys, \<^verbatim>\<open>UNIQUE\<close> and \<^verbatim>\<open>CHECK\<close> constraints, foreign keys with
    their cascade, and the value sets of the enum types the statements cast to.
    Identifiers are compared as text, in the form the store prints them.
    Connection failures, cancellation, the syntax check of identifier columns
    and the width limits of text columns are outside the model.
  \<^item> The case tables of Go's package \<^verbatim>\<open>unicode\<close> are a parameter (\<open>U\<close>) of
    every function that changes the case of text.
  \<^item> What the store generates for an \<^verbatim>\<open>INSERT\<close> or \<^verbatim>\<open>UPDATE\<close> (the new
    row's identifier, the value of \<^verbatim>\<open>NOW()\<close>) is passed in as a \<open>StoreGen\<close>.
  \<^item> A mutating operation returns the store after the call together with its
    result, so that "the store is not changed" is a statement about the first
    component.
\<close>

subsection \<open>Strings\<close>

text \<open>
  \<^verbatim>\<open>strings.ToUpper\<close> and \<^verbatim>\<open>strings.ToLower\<close> of Go's library. Each first
  looks whether every byte of the text is below \<^verbatim>\<open>utf8.RuneSelf\<close> (0x80). If so, it
  maps the letters \<^verbatim>\<open>a\<close>..\<^verbatim>\<open>z\<close> and \<^verbatim>\<open>A\<close>..\<^verbatim>\<open>Z\<close> onto each other and keeps
  every other byte. If not, it returns \<^verbatim>\<open>strings.Map(unicode.ToUpper, s)\<close>
  (\<^verbatim>\<open>unicode.ToLower\<close> for the other), which decodes the text and maps each
  character by the case tables of the package \<^verbatim>\<open>unicode\<close>. Those tables are not
  part of the service; what \<^verbatim>\<open>strings.Map\<close> returns with them is a parameter of
  the model, the record \<open>unicode\<close>, and nothing is assumed about it.
\<close>

record unicode =
  Map_ToUpper :: "string \<Rightarrow> string"
  Map_ToLower :: "string \<Rightarrow> string"

definition lower_letters :: string where
  "lower_letters = ''abcdefghijklmnopqrstuvwxyz''"

definition upper_letters :: string where
  "upper_letters = ''ABCDEFGHIJKLMNOPQRSTUVWXYZ''"

definition upper_byte :: "char \<Rightarrow> char" where
  "upper_byte c = (case map_of (zip lower_letters upper_letters) c of Some u \<Rightarrow> u | None \<Rightarrow> c)"

definition lower_byte :: "char \<Rightarrow> char" where
  "lower_byte c = (case map_of (zip upper_letters lower_letters) c of Some l \<Rightarrow> l | None \<Rightarrow> c)"

text \<open>The test \<^verbatim>\<open>c >= utf8.RuneSelf\<close> on every byte.\<close>

definition isASCII :: "string \<Rightarrow> bool" where
  "isASCII s = list_all (\<lambda>c. (of_char c :: nat) < 128) s"

definition ToUpper :: "unicode \<Rightarrow> string \<Rightarrow> string" where
  "ToUpper U s = (if isASCII s then map upper_byte s else Map_ToUpper U s)"

definition ToLower :: "unicode \<Rightarrow> string \<Rightarrow> string" where
  "ToLower U s = (if isASCII s then map lower_byte s else Map_ToLower U s)"

text \<open>The verb \<^verbatim>\<open>%d\<close> of \<^verbatim>\<open>fmt.Sprintf\<close>: decimal digits, a minus sign for a negative number.\<close>

definition digit_char :: "nat \<Rightarrow> char" where
  "digit_char d = ''0123456789'' ! d"

fun show_nat :: "nat \<Rightarrow> string" where
  "show_nat n = (if n < 10 then [digit_char n] else show_nat (n div 10) @ [digit_char (n mod 10)])"

declare show_nat.simps [simp del]

text \<open>The byte \<^verbatim>\<open>'\<close>, which a string literal of the logic cannot hold.\<close>

definition apostrophe :: char where
  "apostrophe = CHR 0x27"

definition show_int :: "int \<Rightarrow> string" where
  "show_int i = (if i < 0 then CHR ''-'' # show_nat (nat (- i)) else show_nat (nat i))"

text \<open>
  Byte-wise comparison of two strings (the order of the \<^verbatim>\<open>C\<close> collation). It is
  one possible collation of a store; the store carries its collation as a field.
\<close>

fun bytes_le :: "string \<Rightarrow> string \<Rightarrow> bool" where
  "bytes_le [] ys = True"
| "bytes_le (x # xs) [] = False"
| "bytes_le (x # xs) (y # ys) =
     ((of_char x :: nat) < of_char y \<or> (x = y \<and> bytes_le xs ys))"

text \<open>Go's \<^verbatim>\<open>int\<close> on the 64-bit targets of the service: results wrap around.\<close>

definition wrap64 :: "int \<Rightarrow> int" where
  "wrap64 x = (x + 2 ^ 63) mod 2 ^ 64 - 2 ^ 63"

subsection \<open>Rows of the store\<close>

record Vendor =
  ID :: string
  EntityID :: string
  VendorCode :: string
  VendorName :: string
  LegalName :: "string option"
  VendorType :: string
  Status :: string
  TaxID :: "string option"
  IsTaxExempt :: bool
  Is1099Vendor :: bool
  Email :: "string option"
  Phone :: "string option"
  Fax :: "string option"
  Website :: "string option"
  AddressLine1 :: "string option"
  AddressLine2 :: "string option"
  City :: "string option"
  StateProvince :: "string option"
  PostalCode :: "string option"
  Country :: string
  PaymentTerms :: string
  PaymentMethod :: "string option"
  Currency :: string
  CreditLimit :: "int option"
  CurrentBalance :: int
  BankName :: "string option"
  BankAccountNumber :: "string option"
  BankRoutingNumber :: "string option"
  SwiftCode :: "string option"
  IBAN :: "string option"
  Notes :: "string option"
  Tags :: "string list"
  CreatedBy :: "string option"
  CreatedAt :: string
  UpdatedBy :: "string option"
  UpdatedAt :: string

record VendorContact =
  ct_ID :: string
  ct_VendorID :: string
  ct_ContactType :: string
  ct_FirstName :: string
  ct_LastName :: string
  ct_Title :: "string option"
  ct_Email :: "string option"
  ct_Phone :: "string option"
  ct_Mobile :: "string option"
  ct_IsPrimary :: bool
  ct_Notes :: "string option"
  ct_CreatedAt :: string
  ct_UpdatedAt :: string

record VendorDocument =
  doc_ID :: string
  doc_VendorID :: string
  doc_DocumentType :: string
  doc_DocumentName :: string
  doc_DocumentURL :: string
  doc_FileSize :: "int option"
  doc_MimeType :: "string option"
  doc_ExpirationDate :: "string option"
  doc_UploadedBy :: "string option"
  doc_UploadedAt :: string

text \<open>
  The store: the three tables the operations touch, and the collation that
  \<^verbatim>\<open>ORDER BY\<close> compares text with (\<open>collate_le a b\<close>: \<open>a\<close> sorts no later than \<open>b\<close>).
\<close>

record Store =
  vendors :: "Vendor list"
  vendor_contacts :: "VendorContact list"
  vendor_documents :: "VendorDocument list"
  collate_le :: "string \<Rightarrow> string \<Rightarrow> bool"

record StoreGen =
  gen_id :: string
  gen_now :: string

subsection \<open>Errors\<close>

text \<open>
  What a statement can fail with. \<open>ErrNoRows\<close> is \<^verbatim>\<open>pgx.ErrNoRows\<close>; the others
  are the store's own errors and carry the name of the constraint or type.
\<close>

datatype pg_error =
    ErrNoRows
  | UniqueViolation string
  | CheckViolation string
  | ForeignKeyViolation string
  | InvalidEnumValue string string
  | NumericValueOutOfRange

text \<open>
  The error values of the shared \<^verbatim>\<open>errors\<close> package, by constructor:
  \<^verbatim>\<open>errors.NotFound(resource, id)\<close>, \<^verbatim>\<open>errors.AlreadyExists(resource, id)\<close>,
  \<^verbatim>\<open>errors.InvalidInput(field, message)\<close> and \<^verbatim>\<open>errors.Wrap(err, code, message)\<close>.
\<close>

datatype ErrCode = ErrCodeNotFound | ErrCodeAlreadyExists | ErrCodeInvalidInput | ErrCodeInternal

datatype error =
    NotFound string string
  | AlreadyExists string string
  | InvalidInput string string
  | Wrap pg_error ErrCode string

fun code_of :: "error \<Rightarrow> ErrCode" where
  "code_of (NotFound _ _) = ErrCodeNotFound"
| "code_of (AlreadyExists _ _) = ErrCodeAlreadyExists"
| "code_of (InvalidInput _ _) = ErrCodeInvalidInput"
| "code_of (Wrap _ c _) = c"

subsection \<open>The schema: enum types and constraints of the table of vendors\<close>

definition vendor_type_enum :: "string list" where
  "vendor_type_enum = [''supplier'', ''contractor'', ''service_provider'', ''consultant'', ''utility'']"

definition vendor_status_enum :: "string list" where
  "vendor_status_enum = [''active'', ''inactive'', ''suspended'', ''pending_approval'']"

definition payment_method_enum :: "string list" where
  "payment_method_enum = [''check'', ''ach'', ''wire'', ''credit_card'', ''cash'']"

definition contact_type_enum :: "string list" where
  "contact_type_enum = [''primary'', ''billing'', ''shipping'', ''technical'', ''other'']"

text \<open>A cast \<^verbatim>\<open>$n::T\<close> of a text parameter to the enum type \<open>T\<close>.\<close>

definition enum_cast :: "string \<Rightarrow> string list \<Rightarrow> string \<Rightarrow> pg_error option" where
  "enum_cast tname labels x = (if x \<in> set labels then None else Some (InvalidEnumValue tname x))"

text \<open>
  The casts of \<^verbatim>\<open>INSERT INTO vendors\<close> and \<^verbatim>\<open>UPDATE vendors\<close>:
  \<^verbatim>\<open>::vendor_type\<close>, \<^verbatim>\<open>::vendor_status\<close>, \<^verbatim>\<open>::payment_method\<close> (a \<^verbatim>\<open>NULL\<close> casts to \<^verbatim>\<open>NULL\<close>).
\<close>

definition vendor_casts :: "Vendor \<Rightarrow> pg_error option" where
  "vendor_casts v =
     (case enum_cast ''vendor_type'' vendor_type_enum (VendorType v) of
        Some e \<Rightarrow> Some e
      | None \<Rightarrow>
         (case enum_cast ''vendor_status'' vendor_status_enum (Status v) of
            Some e \<Rightarrow> Some e
          | None \<Rightarrow>
             (case PaymentMethod v of
                None \<Rightarrow> None
              | Some m \<Rightarrow> enum_cast ''payment_method'' payment_method_enum m)))"

text \<open>
  The constraints of \<^verbatim>\<open>CREATE TABLE vendors\<close> on a row that is to be stored
  beside the rows \<open>others\<close>: the two \<^verbatim>\<open>CHECK\<close>s, the primary key and
  \<^verbatim>\<open>vendors_entity_code_unique\<close>.
\<close>

definition vendor_constraints :: "Vendor list \<Rightarrow> Vendor \<Rightarrow> pg_error option" where
  "vendor_constraints others row =
     (if (case CreditLimit row of None \<Rightarrow> False | Some l \<Rightarrow> \<not> l \<ge> 0) then
        Some (CheckViolation ''vendors_credit_limit_check'')
      else if \<not> CurrentBalance row \<ge> 0 then
        Some (CheckViolation ''vendors_current_balance_check'')
      else if list_ex (\<lambda>r. ID r = ID row) others then
        Some (UniqueViolation ''vendors_pkey'')
      else if list_ex (\<lambda>r. EntityID r = EntityID row \<and> VendorCode r = VendorCode row) others then
        Some (UniqueViolation ''vendors_entity_code_unique'')
      else None)"

subsection \<open>Repository: Create\<close>

text \<open>
  The row that \<^verbatim>\<open>INSERT INTO vendors (...) VALUES (...)\<close> builds: the listed
  columns from the parameters, the others from their defaults (\<^verbatim>\<open>id\<close> generated,
  \<^verbatim>\<open>current_balance\<close> 0, \<^verbatim>\<open>updated_by\<close> \<^verbatim>\<open>NULL\<close>, both timestamps \<^verbatim>\<open>NOW()\<close>).
\<close>

definition inserted_row :: "StoreGen \<Rightarrow> Vendor \<Rightarrow> Vendor" where
  "inserted_row g vendor =
     vendor\<lparr>ID := gen_id g, CurrentBalance := 0, UpdatedBy := None,
            CreatedAt := gen_now g, UpdatedAt := gen_now g\<rparr>"

text \<open>
  \<^verbatim>\<open>Create\<close> scans \<^verbatim>\<open>RETURNING id, created_at, updated_at\<close> into the vendor it was
  given; any error of the statement is wrapped with \<^verbatim>\<open>ErrCodeInternal\<close>.
\<close>

definition repo_Create :: "Store \<Rightarrow> StoreGen \<Rightarrow> Vendor \<Rightarrow> Store \<times> (error + Vendor)" where
  "repo_Create db g vendor =
     (case vendor_casts vendor of
        Some err \<Rightarrow> (db, Inl (Wrap err ErrCodeInternal ''failed to create vendor''))
      | None \<Rightarrow>
         (case vendor_constraints (vendors db) (inserted_row g vendor) of
            Some err \<Rightarrow> (db, Inl (Wrap err ErrCodeInternal ''failed to create vendor''))
          | None \<Rightarrow>
             (db\<lparr>vendors := vendors db @ [inserted_row g vendor]\<rparr>,
              Inr (vendor\<lparr>ID := gen_id g, CreatedAt := gen_now g, UpdatedAt := gen_now g\<rparr>))))"

subsection \<open>Repository: reads of one vendor\<close>

text \<open>
  \<^verbatim>\<open>SELECT ... FROM vendors WHERE id = $1 AND entity_id = $2\<close>, read with
  \<^verbatim>\<open>QueryRow(...).Scan\<close>: the first matching row, \<^verbatim>\<open>pgx.ErrNoRows\<close> (turned into
  \<^verbatim>\<open>errors.NotFound\<close>) when there is none.
\<close>

definition repo_GetByID :: "Store \<Rightarrow> string \<Rightarrow> string \<Rightarrow> error + Vendor" where
  "repo_GetByID db id' entityID =
     (case find (\<lambda>v. ID v = id' \<and> EntityID v = entityID) (vendors db) of
        None \<Rightarrow> Inl (NotFound ''vendor'' id')
      | Some vendor \<Rightarrow> Inr vendor)"

definition repo_GetByCode :: "Store \<Rightarrow> string \<Rightarrow> string \<Rightarrow> error + Vendor" where
  "repo_GetByCode db code entityID =
     (case find (\<lambda>v. VendorCode v = code \<and> EntityID v = entityID) (vendors db) of
        None \<Rightarrow> Inl (NotFound ''vendor'' code)
      | Some vendor \<Rightarrow> Inr vendor)"

subsection \<open>Repository: Update\<close>

text \<open>
  The \<^verbatim>\<open>SET\<close> list of \<^verbatim>\<open>UPDATE vendors\<close> applied to a stored row. The columns
  \<^verbatim>\<open>id\<close>, \<^verbatim>\<open>entity_id\<close>, \<^verbatim>\<open>current_balance\<close>, \<^verbatim>\<open>created_by\<close> and
  \<^verbatim>\<open>created_at\<close> are not in the list.
\<close>

definition updated_row :: "StoreGen \<Rightarrow> Vendor \<Rightarrow> Vendor \<Rightarrow> Vendor" where
  "updated_row g vendor row =
     row\<lparr>VendorCode := VendorCode vendor, VendorName := VendorName vendor,
         LegalName := LegalName vendor, VendorType := VendorType vendor,
         Status := Status vendor, TaxID := TaxID vendor,
         IsTaxExempt := IsTaxExempt vendor, Is1099Vendor := Is1099Vendor vendor,
         Email := Email vendor, Phone := Phone vendor, Fax := Fax vendor,
         Website := Website vendor,
         AddressLine1 := AddressLine1 vendor, AddressLine2 := AddressLine2 vendor,
         City := City vendor, StateProvince := StateProvince vendor,
         PostalCode := PostalCode vendor, Country := Country vendor,
         PaymentTerms := PaymentTerms vendor, PaymentMethod := PaymentMethod vendor,
         Currency := Currency vendor, CreditLimit := CreditLimit vendor,
         BankName := BankName vendor, BankAccountNumber := BankAccountNumber vendor,
         BankRoutingNumber := BankRoutingNumber vendor,
         SwiftCode := SwiftCode vendor, IBAN := IBAN vendor,
         Notes := Notes vendor, Tags := Tags vendor, UpdatedBy := UpdatedBy vendor,
         UpdatedAt := gen_now g\<rparr>"

text \<open>The \<^verbatim>\<open>WHERE id = $1 AND entity_id = $2\<close> of the statements that address one vendor.\<close>

definition row_is :: "string \<Rightarrow> string \<Rightarrow> Vendor \<Rightarrow> bool" where
  "row_is id' entityID r = (ID r = id' \<and> EntityID r = entityID)"

definition repo_Update :: "Store \<Rightarrow> StoreGen \<Rightarrow> Vendor \<Rightarrow> Store \<times> (error + Vendor)" where
  "repo_Update db g vendor =
     (case vendor_casts vendor of
        Some err \<Rightarrow> (db, Inl (Wrap err ErrCodeInternal ''failed to update vendor''))
      | None \<Rightarrow>
         (case find (row_is (ID vendor) (EntityID vendor)) (vendors db) of
            None \<Rightarrow> (db, Inl (NotFound ''vendor'' (ID vendor)))
          | Some old \<Rightarrow>
             (case vendor_constraints
                     (filter (\<lambda>r. \<not> row_is (ID vendor) (EntityID vendor) r) (vendors db))
                     (updated_row g vendor old) of
                Some err \<Rightarrow> (db, Inl (Wrap err ErrCodeInternal ''failed to update vendor''))
              | None \<Rightarrow>
                 (db\<lparr>vendors :=
                       map (\<lambda>r. if row_is (ID vendor) (EntityID vendor) r
                                then updated_row g vendor r else r) (vendors db)\<rparr>,
                  Inr (vendor\<lparr>UpdatedAt := gen_now g\<rparr>)))))"

subsection \<open>Repository: Delete\<close>

text \<open>
  \<^verbatim>\<open>DELETE FROM vendors WHERE id = $1 AND entity_id = $2\<close>; no row affected is
  \<^verbatim>\<open>errors.NotFound\<close>. The contacts and documents of the vendor go with it
  (\<^verbatim>\<open>REFERENCES vendors(id) ON DELETE CASCADE\<close>).
\<close>

definition repo_Delete :: "Store \<Rightarrow> string \<Rightarrow> string \<Rightarrow> Store \<times> error option" where
  "repo_Delete db id' entityID =
     (if \<not> list_ex (row_is id' entityID) (vendors db) then
        (db, Some (NotFound ''vendor'' id'))
      else
        (db\<lparr>vendors := filter (\<lambda>r. \<not> row_is id' entityID r) (vendors db),
            vendor_contacts := filter (\<lambda>c. ct_VendorID c \<noteq> id') (vendor_contacts db),
            vendor_documents := filter (\<lambda>d. doc_VendorID d \<noteq> id') (vendor_documents db)\<rparr>,
         None))"

subsection \<open>Repository: List\<close>

text \<open>
  \<^verbatim>\<open>List\<close> builds its \<^verbatim>\<open>WHERE\<close> clause by appending one condition
  \<^verbatim>\<open>AND column = $n::type\<close> and one argument per filter that is set. The conditions
  appended are kept here as a list, in the order of the three \<^verbatim>\<open>if\<close> statements.
\<close>

datatype list_condition = StatusIs string | VendorTypeIs string

definition list_conditions :: "string option \<Rightarrow> string option \<Rightarrow> bool \<Rightarrow> list_condition list" where
  "list_conditions status vendorType activeOnly =
     (case status of None \<Rightarrow> [] | Some s \<Rightarrow> [StatusIs s])
     @ (case vendorType of None \<Rightarrow> [] | Some t \<Rightarrow> [VendorTypeIs t])
     @ (if activeOnly then [StatusIs ''active''] else [])"

fun condition_cast :: "list_condition \<Rightarrow> pg_error option" where
  "condition_cast (StatusIs s) = enum_cast ''vendor_status'' vendor_status_enum s"
| "condition_cast (VendorTypeIs t) = enum_cast ''vendor_type'' vendor_type_enum t"

fun condition_holds :: "list_condition \<Rightarrow> Vendor \<Rightarrow> bool" where
  "condition_holds (StatusIs s) v = (Status v = s)"
| "condition_holds (VendorTypeIs t) v = (VendorType v = t)"

text \<open>The first failing cast of the arguments, if any.\<close>

fun first_cast_error :: "list_condition list \<Rightarrow> pg_error option" where
  "first_cast_error [] = None"
| "first_cast_error (c # cs) =
     (case condition_cast c of Some e \<Rightarrow> Some e | None \<Rightarrow> first_cast_error cs)"

text \<open>The rows selected by \<^verbatim>\<open>WHERE entity_id = $1 AND ...\<close>: every condition must hold.\<close>

definition list_where :: "string \<Rightarrow> list_condition list \<Rightarrow> Vendor \<Rightarrow> bool" where
  "list_where entityID conds v = (EntityID v = entityID \<and> list_all (\<lambda>c. condition_holds c v) conds)"

text \<open>
  \<^verbatim>\<open>ORDER BY\<close>: insertion into a list ordered by a comparison. Rows that compare
  equal keep their table order (the store promises no order among them).
\<close>

fun insert_by :: "('a \<Rightarrow> 'a \<Rightarrow> bool) \<Rightarrow> 'a \<Rightarrow> 'a list \<Rightarrow> 'a list" where
  "insert_by le x [] = [x]"
| "insert_by le x (y # ys) = (if le x y then x # y # ys else y # insert_by le x ys)"

definition order_by :: "('a \<Rightarrow> 'a \<Rightarrow> bool) \<Rightarrow> 'a list \<Rightarrow> 'a list" where
  "order_by le xs = foldr (insert_by le) xs []"

text \<open>
  The count query runs first, read with \<^verbatim>\<open>QueryRow(...).Scan\<close>: a cast that
  fails comes back as \<^verbatim>\<open>failed to count vendors\<close>. The row query
  \<^verbatim>\<open>... ORDER BY vendor_name LIMIT $n OFFSET $m\<close> follows. The store refuses a
  negative limit or offset only when the query runs, which the driver reports
  through \<^verbatim>\<open>rows.Err()\<close>; \<^verbatim>\<open>List\<close> loops over \<^verbatim>\<open>rows.Next()\<close> and never reads
  \<^verbatim>\<open>rows.Err()\<close>, so it then returns no rows, the total it has counted, and no error.
\<close>

definition repo_List ::
  "Store \<Rightarrow> string \<Rightarrow> string option \<Rightarrow> string option \<Rightarrow> bool \<Rightarrow> int \<Rightarrow> int
     \<Rightarrow> error + (Vendor list \<times> int)" where
  "repo_List db entityID status vendorType activeOnly limit offset =
     (let conds = list_conditions status vendorType activeOnly;
          matching = filter (list_where entityID conds) (vendors db)
      in case first_cast_error conds of
           Some err \<Rightarrow> Inl (Wrap err ErrCodeInternal ''failed to count vendors'')
         | None \<Rightarrow>
             if limit < 0 \<or> offset < 0 then Inr ([], int (length matching))
             else
               Inr (take (nat limit)
                      (drop (nat offset)
                         (order_by (\<lambda>a b. collate_le db (VendorName a) (VendorName b)) matching)),
                    int (length matching)))"

subsection \<open>Repository: contacts\<close>

text \<open>\<^verbatim>\<open>ORDER BY is_primary DESC, first_name, last_name\<close>.\<close>

definition contact_le :: "(string \<Rightarrow> string \<Rightarrow> bool) \<Rightarrow> VendorContact \<Rightarrow> VendorContact \<Rightarrow> bool" where
  "contact_le le a b =
     (if ct_IsPrimary a \<noteq> ct_IsPrimary b then ct_IsPrimary a
      else if \<not> (le (ct_FirstName a) (ct_FirstName b) \<and> le (ct_FirstName b) (ct_FirstName a))
        then le (ct_FirstName a) (ct_FirstName b)
      else le (ct_LastName a) (ct_LastName b))"

text \<open>\<^verbatim>\<open>SELECT ... FROM vendor_contacts WHERE vendor_id = $1 ORDER BY ...\<close>.\<close>

definition repo_GetContacts :: "Store \<Rightarrow> string \<Rightarrow> error + VendorContact list" where
  "repo_GetContacts db vendorID =
     Inr (order_by (contact_le (collate_le db))
            (filter (\<lambda>c. ct_VendorID c = vendorID) (vendor_contacts db)))"

text \<open>
  \<^verbatim>\<open>INSERT INTO vendor_contacts\<close>: the cast \<^verbatim>\<open>$2::contact_type\<close>, the foreign key
  to \<^verbatim>\<open>vendors(id)\<close>, the primary key, and
  \<^verbatim>\<open>UNIQUE (vendor_id, contact_type, email)\<close>, which a \<^verbatim>\<open>NULL\<close> email never violates.
\<close>

definition contact_constraints :: "Store \<Rightarrow> VendorContact \<Rightarrow> pg_error option" where
  "contact_constraints db row =
     (case enum_cast ''contact_type'' contact_type_enum (ct_ContactType row) of
        Some e \<Rightarrow> Some e
      | None \<Rightarrow>
          if \<not> list_ex (\<lambda>v. ID v = ct_VendorID row) (vendors db) then
            Some (ForeignKeyViolation ''vendor_contacts_vendor_id_fkey'')
          else if list_ex (\<lambda>c. ct_ID c = ct_ID row) (vendor_contacts db) then
            Some (UniqueViolation ''vendor_contacts_pkey'')
          else if ct_Email row \<noteq> None
                  \<and> list_ex (\<lambda>c. ct_VendorID c = ct_VendorID row
                                  \<and> ct_ContactType c = ct_ContactType row
                                  \<and> ct_Email c = ct_Email row) (vendor_contacts db) then
            Some (UniqueViolation ''vendor_contacts_vendor_type_unique'')
          else None)"

definition repo_AddContact :: "Store \<Rightarrow> StoreGen \<Rightarrow> VendorContact \<Rightarrow> Store \<times> (error + VendorContact)" where
  "repo_AddContact db g contact =
     (let row = contact\<lparr>ct_ID := gen_id g, ct_CreatedAt := gen_now g, ct_UpdatedAt := gen_now g\<rparr>
      in case contact_constraints db row of
           Some err \<Rightarrow> (db, Inl (Wrap err ErrCodeInternal ''failed to add vendor contact''))
         | None \<Rightarrow> (db\<lparr>vendor_contacts := vendor_contacts db @ [row]\<rparr>, Inr row))"

subsection \<open>Repository: ValidateVendor\<close>

definition repo_ValidateVendor :: "Store \<Rightarrow> string \<Rightarrow> string \<Rightarrow> bool \<times> string \<times> error option" where
  "repo_ValidateVendor db vendorID entityID =
     (case repo_GetByID db vendorID entityID of
        Inl err \<Rightarrow> (False, ''vendor not found'', Some err)
      | Inr vendor \<Rightarrow>
          if Status vendor \<noteq> ''active'' then
            (False,
             ''vendor status is '' @ [apostrophe] @ Status vendor @ [apostrophe] @ '', must be active'',
             None)
          else if CreditLimit vendor \<noteq> None \<and> CurrentBalance vendor \<ge> the (CreditLimit vendor) then
            (False,
             ''vendor has exceeded credit limit: balance='' @ show_int (CurrentBalance vendor)
               @ '', limit='' @ show_int (the (CreditLimit vendor)),
             None)
          else (True, [], None))"

subsection \<open>Repository: UpdateBalance\<close>

text \<open>
  \<^verbatim>\<open>UPDATE vendors SET current_balance = current_balance + $3, updated_at = NOW()
  WHERE id = $1 AND entity_id = $2 RETURNING id\<close>. The sum is a \<^verbatim>\<open>BIGINT\<close>: the store
  raises an error when it leaves the 64-bit range, and
  \<^verbatim>\<open>vendors_current_balance_check\<close> rejects a negative one. Both come back wrapped
  as \<^verbatim>\<open>failed to update vendor balance\<close>; no row is \<^verbatim>\<open>errors.NotFound\<close>.
\<close>

definition repo_UpdateBalance :: "Store \<Rightarrow> StoreGen \<Rightarrow> string \<Rightarrow> string \<Rightarrow> int \<Rightarrow> Store \<times> error option" where
  "repo_UpdateBalance db g vendorID entityID amount =
     (case find (row_is vendorID entityID) (vendors db) of
        None \<Rightarrow> (db, Some (NotFound ''vendor'' vendorID))
      | Some old \<Rightarrow>
          if CurrentBalance old + amount < - (2 ^ 63) \<or> CurrentBalance old + amount \<ge> 2 ^ 63 then
            (db, Some (Wrap NumericValueOutOfRange ErrCodeInternal ''failed to update vendor balance''))
          else if \<not> CurrentBalance old + amount \<ge> 0 then
            (db, Some (Wrap (CheckViolation ''vendors_current_balance_check'') ErrCodeInternal
                         ''failed to update vendor balance''))
          else
            (db\<lparr>vendors :=
                  map (\<lambda>r. if row_is vendorID entityID r
                           then r\<lparr>CurrentBalance := CurrentBalance r + amount, UpdatedAt := gen_now g\<rparr>
                           else r) (vendors db)\<rparr>,
             None))"

section \<open>Service layer\<close>

text \<open>
  The requests of \<^verbatim>\<open>package service\<close>. Their fields carry a prefix (\<open>c_\<close>, \<open>u_\<close>,
  \<open>a_\<close>), since a field name is a constant of the theory. Neither request has a
  field for the balance, and the create request has none for the status.
  The functions of the service carry the prefix \<open>svc_\<close>, those of the repository
  \<open>repo_\<close>, the handlers \<open>http_\<close> and \<open>grpc_\<close>. Log entries are not modelled.
\<close>

record CreateVendorRequest =
  c_EntityID :: string
  c_VendorCode :: string
  c_VendorName :: string
  c_LegalName :: "string option"
  c_VendorType :: string
  c_TaxID :: "string option"
  c_IsTaxExempt :: bool
  c_Is1099Vendor :: bool
  c_Email :: "string option"
  c_Phone :: "string option"
  c_Fax :: "string option"
  c_Website :: "string option"
  c_AddressLine1 :: "string option"
  c_AddressLine2 :: "string option"
  c_City :: "string option"
  c_StateProvince :: "string option"
  c_PostalCode :: "string option"
  c_Country :: string
  c_PaymentTerms :: string
  c_PaymentMethod :: "string option"
  c_Currency :: string
  c_CreditLimit :: "int option"
  c_BankName :: "string option"
  c_BankAccountNumber :: "string option"
  c_BankRoutingNumber :: "string option"
  c_SwiftCode :: "string option"
  c_IBAN :: "string option"
  c_Notes :: "string option"
  c_Tags :: "string list"
  c_CreatedBy :: string

record UpdateVendorRequest =
  u_ID :: string
  u_EntityID :: string
  u_VendorCode :: string
  u_VendorName :: string
  u_LegalName :: "string option"
  u_VendorType :: string
  u_Status :: string
  u_TaxID :: "string option"
  u_IsTaxExempt :: bool
  u_Is1099Vendor :: bool
  u_Email :: "string option"
  u_Phone :: "string option"
  u_Fax :: "string option"
  u_Website :: "string option"
  u_AddressLine1 :: "string option"
  u_AddressLine2 :: "string option"
  u_City :: "string option"
  u_StateProvince :: "string option"
  u_PostalCode :: "string option"
  u_Country :: string
  u_PaymentTerms :: string
  u_PaymentMethod :: "string option"
  u_Currency :: string
  u_CreditLimit :: "int option"
  u_BankName :: "string option"
  u_BankAccountNumber :: "string option"
  u_BankRoutingNumber :: "string option"
  u_SwiftCode :: "string option"
  u_IBAN :: "string option"
  u_Notes :: "string option"
  u_Tags :: "string list"
  u_UpdatedBy :: string

record AddContactRequest =
  a_VendorID :: string
  a_ContactType :: string
  a_FirstName :: string
  a_LastName :: string
  a_Title :: "string option"
  a_Email :: "string option"
  a_Phone :: "string option"
  a_Mobile :: "string option"
  a_IsPrimary :: bool
  a_Notes :: "string option"

subsection \<open>CreateVendor\<close>

text \<open>The keys of the map \<^verbatim>\<open>validTypes\<close> of \<^verbatim>\<open>CreateVendor\<close>.\<close>

definition validTypes :: "string list" where
  "validTypes = [''supplier'', ''contractor'', ''service_provider'', ''consultant'', ''utility'']"

text \<open>The struct literal \<^verbatim>\<open>&repository.Vendor{...}\<close> of \<^verbatim>\<open>CreateVendor\<close>; the fields it
  does not name have Go's zero value.\<close>

definition new_vendor :: "unicode \<Rightarrow> CreateVendorRequest \<Rightarrow> string \<Rightarrow> Vendor" where
  "new_vendor U req vendorType =
     \<lparr>ID = [],
      EntityID = c_EntityID req,
      VendorCode = ToUpper U (c_VendorCode req),
      VendorName = c_VendorName req,
      LegalName = c_LegalName req,
      VendorType = vendorType,
      Status = ''pending_approval'',
      TaxID = c_TaxID req,
      IsTaxExempt = c_IsTaxExempt req,
      Is1099Vendor = c_Is1099Vendor req,
      Email = c_Email req,
      Phone = c_Phone req,
      Fax = c_Fax req,
      Website = c_Website req,
      AddressLine1 = c_AddressLine1 req,
      AddressLine2 = c_AddressLine2 req,
      City = c_City req,
      StateProvince = c_StateProvince req,
      PostalCode = c_PostalCode req,
      Country = ToUpper U (c_Country req),
      PaymentTerms = c_PaymentTerms req,
      PaymentMethod = c_PaymentMethod req,
      Currency = ToUpper U (c_Currency req),
      CreditLimit = c_CreditLimit req,
      CurrentBalance = 0,
      BankName = c_BankName req,
      BankAccountNumber = c_BankAccountNumber req,
      BankRoutingNumber = c_BankRoutingNumber req,
      SwiftCode = c_SwiftCode req,
      IBAN = c_IBAN req,
      Notes = c_Notes req,
      Tags = c_Tags req,
      CreatedBy = Some (c_CreatedBy req),
      CreatedAt = [],
      UpdatedBy = None,
      UpdatedAt = []\<rparr>"

text \<open>
  \<^verbatim>\<open>existing, _ := s.vendorRepo.GetByCode(ctx, req.VendorCode, req.EntityID)\<close>
  looks the code up as the request spells it; the error of the lookup is dropped.
\<close>

definition svc_CreateVendor :: "unicode \<Rightarrow> Store \<Rightarrow> StoreGen \<Rightarrow> CreateVendorRequest \<Rightarrow> Store \<times> (error + Vendor)" where
  "svc_CreateVendor U db g req =
     (case repo_GetByCode db (c_VendorCode req) (c_EntityID req) of
        Inr existing \<Rightarrow> (db, Inl (AlreadyExists ''vendor'' (c_VendorCode req)))
      | Inl _ \<Rightarrow>
          if ToLower U (c_VendorType req) \<notin> set validTypes then
            (db, Inl (InvalidInput ''vendor_type'' ''invalid vendor type''))
          else if length (c_Currency req) \<noteq> 3 then
            (db, Inl (InvalidInput ''currency'' ''currency must be 3-letter ISO code''))
          else if c_CreditLimit req \<noteq> None \<and> the (c_CreditLimit req) < 0 then
            (db, Inl (InvalidInput ''credit_limit'' ''credit limit cannot be negative''))
          else if length (c_Country req) \<noteq> 2 then
            (db, Inl (InvalidInput ''country'' ''country must be 2-letter ISO code''))
          else repo_Create db g (new_vendor U req (ToLower U (c_VendorType req))))"

subsection \<open>Reads\<close>

definition svc_GetVendor :: "Store \<Rightarrow> string \<Rightarrow> string \<Rightarrow> error + Vendor" where
  "svc_GetVendor db id' entityID = repo_GetByID db id' entityID"

definition svc_GetVendorByCode :: "Store \<Rightarrow> string \<Rightarrow> string \<Rightarrow> error + Vendor" where
  "svc_GetVendorByCode db code entityID = repo_GetByCode db code entityID"

subsection \<open>UpdateVendor\<close>

text \<open>\<^verbatim>\<open>existing != nil\<close> for the result of a lookup.\<close>

definition found :: "error + 'a \<Rightarrow> bool" where
  "found r = (case r of Inl _ \<Rightarrow> False | Inr _ \<Rightarrow> True)"

text \<open>The assignments \<^verbatim>\<open>vendor.X = ...\<close> of \<^verbatim>\<open>UpdateVendor\<close> on the vendor it has read.\<close>

definition apply_update :: "unicode \<Rightarrow> UpdateVendorRequest \<Rightarrow> string \<Rightarrow> string \<Rightarrow> Vendor \<Rightarrow> Vendor" where
  "apply_update U req vendorType status vendor =
     vendor\<lparr>VendorCode := ToUpper U (u_VendorCode req),
            VendorName := u_VendorName req,
            LegalName := u_LegalName req,
            VendorType := vendorType,
            Status := status,
            TaxID := u_TaxID req,
            IsTaxExempt := u_IsTaxExempt req,
            Is1099Vendor := u_Is1099Vendor req,
            Email := u_Email req,
            Phone := u_Phone req,
            Fax := u_Fax req,
            Website := u_Website req,
            AddressLine1 := u_AddressLine1 req,
            AddressLine2 := u_AddressLine2 req,
            City := u_City req,
            StateProvince := u_StateProvince req,
            PostalCode := u_PostalCode req,
            Country := ToUpper U (u_Country req),
            PaymentTerms := u_PaymentTerms req,
            PaymentMethod := u_PaymentMethod req,
            Currency := ToUpper U (u_Currency req),
            CreditLimit := u_CreditLimit req,
            BankName := u_BankName req,
            BankAccountNumber := u_BankAccountNumber req,
            BankRoutingNumber := u_BankRoutingNumber req,
            SwiftCode := u_SwiftCode req,
            IBAN := u_IBAN req,
            Notes := u_Notes req,
            Tags := u_Tags req,
            UpdatedBy := Some (u_UpdatedBy req)\<rparr>"

definition svc_UpdateVendor :: "unicode \<Rightarrow> Store \<Rightarrow> StoreGen \<Rightarrow> UpdateVendorRequest \<Rightarrow> Store \<times> (error + Vendor)" where
  "svc_UpdateVendor U db g req =
     (case repo_GetByID db (u_ID req) (u_EntityID req) of
        Inl err \<Rightarrow> (db, Inl err)
      | Inr vendor \<Rightarrow>
          if u_VendorCode req \<noteq> VendorCode vendor
             \<and> found (repo_GetByCode db (u_VendorCode req) (u_EntityID req)) then
            (db, Inl (AlreadyExists ''vendor'' (u_VendorCode req)))
          else if ToLower U (u_VendorType req) \<noteq> ''supplier''
                  \<and> ToLower U (u_VendorType req) \<noteq> ''contractor''
                  \<and> ToLower U (u_VendorType req) \<noteq> ''service_provider''
                  \<and> ToLower U (u_VendorType req) \<noteq> ''consultant''
                  \<and> ToLower U (u_VendorType req) \<noteq> ''utility'' then
            (db, Inl (InvalidInput ''vendor_type'' ''invalid vendor type''))
          else if ToLower U (u_Status req) \<noteq> ''active''
                  \<and> ToLower U (u_Status req) \<noteq> ''inactive''
                  \<and> ToLower U (u_Status req) \<noteq> ''suspended''
                  \<and> ToLower U (u_Status req) \<noteq> ''pending_approval'' then
            (db, Inl (InvalidInput ''status'' ''invalid vendor status''))
          else if u_CreditLimit req \<noteq> None \<and> the (u_CreditLimit req) < 0 then
            (db, Inl (InvalidInput ''credit_limit'' ''credit limit cannot be negative''))
          else
            repo_Update db g
              (apply_update U req (ToLower U (u_VendorType req)) (ToLower U (u_Status req)) vendor))"

subsection \<open>DeleteVendor, ListVendors, ActivateVendor, DeactivateVendor\<close>

definition svc_DeleteVendor :: "Store \<Rightarrow> string \<Rightarrow> string \<Rightarrow> Store \<times> error option" where
  "svc_DeleteVendor db id' entityID = repo_Delete db id' entityID"

text \<open>\<^verbatim>\<open>offset := (page - 1) * pageSize\<close> on Go's \<^verbatim>\<open>int\<close>.\<close>

definition svc_ListVendors ::
  "Store \<Rightarrow> string \<Rightarrow> string option \<Rightarrow> string option \<Rightarrow> bool \<Rightarrow> int \<Rightarrow> int
     \<Rightarrow> error + (Vendor list \<times> int)" where
  "svc_ListVendors db entityID status vendorType activeOnly page pageSize =
     repo_List db entityID status vendorType activeOnly pageSize
       (wrap64 (wrap64 (page - 1) * pageSize))"

definition svc_ActivateVendor :: "Store \<Rightarrow> StoreGen \<Rightarrow> string \<Rightarrow> string \<Rightarrow> string \<Rightarrow> Store \<times> error option" where
  "svc_ActivateVendor db g id' entityID updatedBy =
     (case repo_GetByID db id' entityID of
        Inl err \<Rightarrow> (db, Some err)
      | Inr vendor \<Rightarrow>
          (case repo_Update db g (vendor\<lparr>Status := ''active'', UpdatedBy := Some updatedBy\<rparr>) of
             (db', Inl err) \<Rightarrow> (db', Some err)
           | (db', Inr _) \<Rightarrow> (db', None)))"

definition svc_DeactivateVendor :: "Store \<Rightarrow> StoreGen \<Rightarrow> string \<Rightarrow> string \<Rightarrow> string \<Rightarrow> Store \<times> error option" where
  "svc_DeactivateVendor db g id' entityID updatedBy =
     (case repo_GetByID db id' entityID of
        Inl err \<Rightarrow> (db, Some err)
      | Inr vendor \<Rightarrow>
          (case repo_Update db g (vendor\<lparr>Status := ''inactive'', UpdatedBy := Some updatedBy\<rparr>) of
             (db', Inl err) \<Rightarrow> (db', Some err)
           | (db', Inr _) \<Rightarrow> (db', None)))"

subsection \<open>Contacts, validation, balance\<close>

definition svc_GetVendorContacts :: "Store \<Rightarrow> string \<Rightarrow> error + VendorContact list" where
  "svc_GetVendorContacts db vendorID = repo_GetContacts db vendorID"

definition svc_AddVendorContact :: "unicode \<Rightarrow> Store \<Rightarrow> StoreGen \<Rightarrow> AddContactRequest \<Rightarrow> Store \<times> (error + VendorContact)" where
  "svc_AddVendorContact U db g req =
     (if ToLower U (a_ContactType req)
           \<notin> set [''primary'', ''billing'', ''shipping'', ''technical'', ''other''] then
        (db, Inl (InvalidInput ''contact_type'' ''invalid contact type''))
      else
        repo_AddContact db g
          \<lparr>ct_ID = [],
           ct_VendorID = a_VendorID req,
           ct_ContactType = ToLower U (a_ContactType req),
           ct_FirstName = a_FirstName req,
           ct_LastName = a_LastName req,
           ct_Title = a_Title req,
           ct_Email = a_Email req,
           ct_Phone = a_Phone req,
           ct_Mobile = a_Mobile req,
           ct_IsPrimary = a_IsPrimary req,
           ct_Notes = a_Notes req,
           ct_CreatedAt = [],
           ct_UpdatedAt = []\<rparr>)"

definition svc_ValidateVendor :: "Store \<Rightarrow> string \<Rightarrow> string \<Rightarrow> bool \<times> string \<times> error option" where
  "svc_ValidateVendor db vendorID entityID = repo_ValidateVendor db vendorID entityID"

text \<open>
  Modelled from the spec: \<^verbatim>\<open>VendorService.UpdateBalance\<close>, which both handlers call,
  is not in the service file at hand. The specification describes it as one atomic
  add-and-persist at the store with no validation of the delta in this layer, so it
  is the repository's \<^verbatim>\<open>UpdateBalance\<close> and nothing else.
\<close>

definition svc_UpdateBalance :: "Store \<Rightarrow> StoreGen \<Rightarrow> string \<Rightarrow> string \<Rightarrow> int \<Rightarrow> Store \<times> error option" where
  "svc_UpdateBalance db g id' entityID amount = repo_UpdateBalance db g id' entityID amount"

section \<open>Transport adapters\<close>

subsection \<open>gRPC: messages, caller identity, status\<close>

text \<open>
  The messages of the generated package \<^verbatim>\<open>pb\<close>, with the fields the handler reads
  or writes (prefixes \<open>pc_\<close>, \<open>pu_\<close>, \<open>pv_\<close>). A string field of a message is never
  absent: the empty string stands for "not set", and 0 does for \<^verbatim>\<open>CreditLimit\<close>.
\<close>

record pb_CreateVendorRequest =
  pc_EntityId :: string
  pc_VendorCode :: string
  pc_VendorName :: string
  pc_LegalName :: string
  pc_VendorType :: string
  pc_TaxId :: string
  pc_IsTaxExempt :: bool
  pc_Is_1099Vendor :: bool
  pc_Email :: string
  pc_Phone :: string
  pc_Fax :: string
  pc_Website :: string
  pc_AddressLine1 :: string
  pc_AddressLine2 :: string
  pc_City :: string
  pc_StateProvince :: string
  pc_PostalCode :: string
  pc_Country :: string
  pc_PaymentTerms :: string
  pc_PaymentMethod :: string
  pc_Currency :: string
  pc_CreditLimit :: int
  pc_BankName :: string
  pc_BankAccountNumber :: string
  pc_BankRoutingNumber :: string
  pc_SwiftCode :: string
  pc_Iban :: string
  pc_Notes :: string
  pc_Tags :: "string list"

record pb_UpdateVendorRequest =
  pu_Id :: string
  pu_EntityId :: string
  pu_VendorCode :: string
  pu_VendorName :: string
  pu_LegalName :: string
  pu_VendorType :: string
  pu_Status :: string
  pu_TaxId :: string
  pu_IsTaxExempt :: bool
  pu_Is_1099Vendor :: bool
  pu_Email :: string
  pu_Phone :: string
  pu_Fax :: string
  pu_Website :: string
  pu_AddressLine1 :: string
  pu_AddressLine2 :: string
  pu_City :: string
  pu_StateProvince :: string
  pu_PostalCode :: string
  pu_Country :: string
  pu_PaymentTerms :: string
  pu_PaymentMethod :: string
  pu_Currency :: string
  pu_CreditLimit :: int
  pu_BankName :: string
  pu_BankAccountNumber :: string
  pu_BankRoutingNumber :: string
  pu_SwiftCode :: string
  pu_Iban :: string
  pu_Notes :: string
  pu_Tags :: "string list"

record pb_Vendor =
  pv_Id :: string
  pv_EntityId :: string
  pv_VendorCode :: string
  pv_VendorName :: string
  pv_LegalName :: string
  pv_VendorType :: string
  pv_Status :: string
  pv_TaxId :: string
  pv_IsTaxExempt :: bool
  pv_Is_1099Vendor :: bool
  pv_Email :: string
  pv_Phone :: string
  pv_Fax :: string
  pv_Website :: string
  pv_AddressLine1 :: string
  pv_AddressLine2 :: string
  pv_City :: string
  pv_StateProvince :: string
  pv_PostalCode :: string
  pv_Country :: string
  pv_PaymentTerms :: string
  pv_PaymentMethod :: string
  pv_Currency :: string
  pv_CreditLimit :: int
  pv_CurrentBalance :: int
  pv_BankName :: string
  pv_BankAccountNumber :: string
  pv_BankRoutingNumber :: string
  pv_SwiftCode :: string
  pv_Iban :: string
  pv_Notes :: string
  pv_Tags :: "string list"
  pv_CreatedAt :: string
  pv_UpdatedAt :: string

record pb_ListVendorsResponse =
  lr_Vendors :: "pb_Vendor list"
  lr_Total :: int
  lr_Page :: int
  lr_PageSize :: int

record pb_ValidateVendorResponse =
  vr_Valid :: bool
  vr_Message :: string

record Response =
  rsp_Success :: bool
  rsp_Message :: string

text \<open>
  \<^verbatim>\<open>auth.GetUserContext(ctx)\<close>: the identity the authentication interceptor put
  into the context, \<open>None\<close> when there is none.
\<close>

record UserContext =
  uc_UserID :: string
  uc_EntityID :: string

datatype codes = Unauthenticated | PermissionDenied | Internal

text \<open>The text of a status or of an HTTP error: a literal, or \<^verbatim>\<open>err.Error()\<close>.\<close>

datatype message = Literal string | ErrorText error

datatype grpc_status = StatusError codes message

subsection \<open>gRPC: helper functions\<close>

definition stringToProto :: "string option \<Rightarrow> string" where
  "stringToProto s = (case s of None \<Rightarrow> [] | Some x \<Rightarrow> x)"

definition stringPtr :: "string \<Rightarrow> string option" where
  "stringPtr s = (if s = [] then None else Some s)"

definition int64ToProto :: "int option \<Rightarrow> int" where
  "int64ToProto i = (case i of None \<Rightarrow> 0 | Some x \<Rightarrow> x)"

definition int64Ptr :: "int \<Rightarrow> int option" where
  "int64Ptr i = (if i = 0 then None else Some i)"

definition toGRPCError :: "error \<Rightarrow> grpc_status" where
  "toGRPCError err = StatusError Internal (ErrorText err)"

definition vendorToProto :: "Vendor \<Rightarrow> pb_Vendor" where
  "vendorToProto vendor =
     \<lparr>pv_Id = ID vendor,
      pv_EntityId = EntityID vendor,
      pv_VendorCode = VendorCode vendor,
      pv_VendorName = VendorName vendor,
      pv_LegalName = stringToProto (LegalName vendor),
      pv_VendorType = VendorType vendor,
      pv_Status = Status vendor,
      pv_TaxId = stringToProto (TaxID vendor),
      pv_IsTaxExempt = IsTaxExempt vendor,
      pv_Is_1099Vendor = Is1099Vendor vendor,
      pv_Email = stringToProto (Email vendor),
      pv_Phone = stringToProto (Phone vendor),
      pv_Fax = stringToProto (Fax vendor),
      pv_Website = stringToProto (Website vendor),
      pv_AddressLine1 = stringToProto (AddressLine1 vendor),
      pv_AddressLine2 = stringToProto (AddressLine2 vendor),
      pv_City = stringToProto (City vendor),
      pv_StateProvince = stringToProto (StateProvince vendor),
      pv_PostalCode = stringToProto (PostalCode vendor),
      pv_Country = Country vendor,
      pv_PaymentTerms = PaymentTerms vendor,
      pv_PaymentMethod = stringToProto (PaymentMethod vendor),
      pv_Currency = Currency vendor,
      pv_CreditLimit = int64ToProto (CreditLimit vendor),
      pv_CurrentBalance = CurrentBalance vendor,
      pv_BankName = stringToProto (BankName vendor),
      pv_BankAccountNumber = stringToProto (BankAccountNumber vendor),
      pv_BankRoutingNumber = stringToProto (BankRoutingNumber vendor),
      pv_SwiftCode = stringToProto (SwiftCode vendor),
      pv_Iban = stringToProto (IBAN vendor),
      pv_Notes = stringToProto (Notes vendor),
      pv_Tags = Tags vendor,
      pv_CreatedAt = CreatedAt vendor,
      pv_UpdatedAt = UpdatedAt vendor\<rparr>"

subsection \<open>gRPC: CreateVendor and UpdateVendor\<close>

text \<open>The literal \<^verbatim>\<open>&service.CreateVendorRequest{...}\<close> of the handler.\<close>

definition create_svcReq :: "UserContext \<Rightarrow> pb_CreateVendorRequest \<Rightarrow> CreateVendorRequest" where
  "create_svcReq userCtx req =
     \<lparr>c_EntityID = pc_EntityId req,
      c_VendorCode = pc_VendorCode req,
      c_VendorName = pc_VendorName req,
      c_LegalName = stringPtr (pc_LegalName req),
      c_VendorType = pc_VendorType req,
      c_TaxID = stringPtr (pc_TaxId req),
      c_IsTaxExempt = pc_IsTaxExempt req,
      c_Is1099Vendor = pc_Is_1099Vendor req,
      c_Email = stringPtr (pc_Email req),
      c_Phone = stringPtr (pc_Phone req),
      c_Fax = stringPtr (pc_Fax req),
      c_Website = stringPtr (pc_Website req),
      c_AddressLine1 = stringPtr (pc_AddressLine1 req),
      c_AddressLine2 = stringPtr (pc_AddressLine2 req),
      c_City = stringPtr (pc_City req),
      c_StateProvince = stringPtr (pc_StateProvince req),
      c_PostalCode = stringPtr (pc_PostalCode req),
      c_Country = pc_Country req,
      c_PaymentTerms = pc_PaymentTerms req,
      c_PaymentMethod = stringPtr (pc_PaymentMethod req),
      c_Currency = pc_Currency req,
      c_CreditLimit = int64Ptr (pc_CreditLimit req),
      c_BankName = stringPtr (pc_BankName req),
      c_BankAccountNumber = stringPtr (pc_BankAccountNumber req),
      c_BankRoutingNumber = stringPtr (pc_BankRoutingNumber req),
      c_SwiftCode = stringPtr (pc_SwiftCode req),
      c_IBAN = stringPtr (pc_Iban req),
      c_Notes = stringPtr (pc_Notes req),
      c_Tags = pc_Tags req,
      c_CreatedBy = uc_UserID userCtx\<rparr>"

definition grpc_CreateVendor ::
  "unicode \<Rightarrow> Store \<Rightarrow> StoreGen \<Rightarrow> UserContext option \<Rightarrow> pb_CreateVendorRequest \<Rightarrow> Store \<times> (grpc_status + pb_Vendor)" where
  "grpc_CreateVendor U db g ctx req =
     (case ctx of
        None \<Rightarrow> (db, Inl (StatusError Unauthenticated (Literal ''authentication required'')))
      | Some userCtx \<Rightarrow>
          if pc_EntityId req \<noteq> uc_EntityID userCtx then
            (db, Inl (StatusError PermissionDenied (Literal ''access denied: entity mismatch'')))
          else
            (case svc_CreateVendor U db g (create_svcReq userCtx req) of
               (db', Inl err) \<Rightarrow> (db', Inl (toGRPCError err))
             | (db', Inr vendor) \<Rightarrow> (db', Inr (vendorToProto vendor))))"

text \<open>The literal \<^verbatim>\<open>&service.UpdateVendorRequest{...}\<close> of the handler.\<close>

definition update_svcReq :: "UserContext \<Rightarrow> pb_UpdateVendorRequest \<Rightarrow> UpdateVendorRequest" where
  "update_svcReq userCtx req =
     \<lparr>u_ID = pu_Id req,
      u_EntityID = pu_EntityId req,
      u_VendorCode = pu_VendorCode req,
      u_VendorName = pu_VendorName req,
      u_LegalName = stringPtr (pu_LegalName req),
      u_VendorType = pu_VendorType req,
      u_Status = pu_Status req,
      u_TaxID = stringPtr (pu_TaxId req),
      u_IsTaxExempt = pu_IsTaxExempt req,
      u_Is1099Vendor = pu_Is_1099Vendor req,
      u_Email = stringPtr (pu_Email req),
      u_Phone = stringPtr (pu_Phone req),
      u_Fax = stringPtr (pu_Fax req),
      u_Website = stringPtr (pu_Website req),
      u_AddressLine1 = stringPtr (pu_AddressLine1 req),
      u_AddressLine2 = stringPtr (pu_AddressLine2 req),
      u_City = stringPtr (pu_City req),
      u_StateProvince = stringPtr (pu_StateProvince req),
      u_PostalCode = stringPtr (pu_PostalCode req),
      u_Country = pu_Country req,
      u_PaymentTerms = pu_PaymentTerms req,
      u_PaymentMethod = stringPtr (pu_PaymentMethod req),
      u_Currency = pu_Currency req,
      u_CreditLimit = int64Ptr (pu_CreditLimit req),
      u_BankName = stringPtr (pu_BankName req),
      u_BankAccountNumber = stringPtr (pu_BankAccountNumber req),
      u_BankRoutingNumber = stringPtr (pu_BankRoutingNumber req),
      u_SwiftCode = stringPtr (pu_SwiftCode req),
      u_IBAN = stringPtr (pu_Iban req),
      u_Notes = stringPtr (pu_Notes req),
      u_Tags = pu_Tags req,
      u_UpdatedBy = uc_UserID userCtx\<rparr>"

definition grpc_UpdateVendor ::
  "unicode \<Rightarrow> Store \<Rightarrow> StoreGen \<Rightarrow> UserContext option \<Rightarrow> pb_UpdateVendorRequest \<Rightarrow> Store \<times> (grpc_status + pb_Vendor)" where
  "grpc_UpdateVendor U db g ctx req =
     (case ctx of
        None \<Rightarrow> (db, Inl (StatusError Unauthenticated (Literal ''authentication required'')))
      | Some userCtx \<Rightarrow>
          if pu_EntityId req \<noteq> uc_EntityID userCtx then
            (db, Inl (StatusError PermissionDenied (Literal ''access denied: entity mismatch'')))
          else
            (case svc_UpdateVendor U db g (update_svcReq userCtx req) of
               (db', Inl err) \<Rightarrow> (db', Inl (toGRPCError err))
             | (db', Inr vendor) \<Rightarrow> (db', Inr (vendorToProto vendor))))"

subsection \<open>gRPC: the other handlers\<close>

text \<open>
  The requests of these handlers are small; their fields are passed one by one
  (\<^verbatim>\<open>req.Id\<close>, \<^verbatim>\<open>req.EntityId\<close>, \<^verbatim>\<open>req.Amount\<close>, ...). \<^verbatim>\<open>GetVendor\<close>,
  \<^verbatim>\<open>DeleteVendor\<close>, \<^verbatim>\<open>ListVendors\<close>, \<^verbatim>\<open>ValidateVendor\<close> and \<^verbatim>\<open>UpdateBalance\<close> do
  not read the caller's identity; the context is an argument of their models all
  the same, and is not used.
\<close>

definition grpc_GetVendor :: "Store \<Rightarrow> UserContext option \<Rightarrow> string \<Rightarrow> string \<Rightarrow> grpc_status + pb_Vendor" where
  "grpc_GetVendor db ctx id' entityId =
     (case svc_GetVendor db id' entityId of
        Inl err \<Rightarrow> Inl (toGRPCError err)
      | Inr vendor \<Rightarrow> Inr (vendorToProto vendor))"

definition grpc_DeleteVendor ::
  "Store \<Rightarrow> UserContext option \<Rightarrow> string \<Rightarrow> string \<Rightarrow> Store \<times> (grpc_status + Response)" where
  "grpc_DeleteVendor db ctx id' entityId =
     (case svc_DeleteVendor db id' entityId of
        (db', Some err) \<Rightarrow> (db', Inl (toGRPCError err))
      | (db', None) \<Rightarrow>
          (db', Inr \<lparr>rsp_Success = True, rsp_Message = ''Vendor deleted successfully''\<rparr>))"

definition grpc_ListVendors ::
  "Store \<Rightarrow> UserContext option \<Rightarrow> string \<Rightarrow> string \<Rightarrow> string \<Rightarrow> bool \<Rightarrow> int \<Rightarrow> int
     \<Rightarrow> grpc_status + pb_ListVendorsResponse" where
  "grpc_ListVendors db ctx entityId status vendorType activeOnly page pageSize =
     (let status' = (if status \<noteq> [] then Some status else None);
          vendorType' = (if vendorType \<noteq> [] then Some vendorType else None);
          page' = (if page \<le> 0 then 1 else page);
          pageSize' = (if pageSize \<le> 0 then 20 else pageSize)
      in case svc_ListVendors db entityId status' vendorType' activeOnly page' pageSize' of
           Inl err \<Rightarrow> Inl (toGRPCError err)
         | Inr (vendors', total') \<Rightarrow>
             Inr \<lparr>lr_Vendors = map vendorToProto vendors', lr_Total = total',
                  lr_Page = page', lr_PageSize = pageSize'\<rparr>)"

definition grpc_ActivateVendor ::
  "Store \<Rightarrow> StoreGen \<Rightarrow> UserContext option \<Rightarrow> string \<Rightarrow> string \<Rightarrow> Store \<times> (grpc_status + Response)" where
  "grpc_ActivateVendor db g ctx id' entityId =
     (case ctx of
        None \<Rightarrow> (db, Inl (StatusError Unauthenticated (Literal ''authentication required'')))
      | Some userCtx \<Rightarrow>
          if entityId \<noteq> uc_EntityID userCtx then
            (db, Inl (StatusError PermissionDenied (Literal ''access denied: entity mismatch'')))
          else
            (case svc_ActivateVendor db g id' entityId (uc_UserID userCtx) of
               (db', Some err) \<Rightarrow> (db', Inl (toGRPCError err))
             | (db', None) \<Rightarrow>
                 (db', Inr \<lparr>rsp_Success = True, rsp_Message = ''Vendor activated successfully''\<rparr>)))"

definition grpc_DeactivateVendor ::
  "Store \<Rightarrow> StoreGen \<Rightarrow> UserContext option \<Rightarrow> string \<Rightarrow> string \<Rightarrow> Store \<times> (grpc_status + Response)" where
  "grpc_DeactivateVendor db g ctx id' entityId =
     (case ctx of
        None \<Rightarrow> (db, Inl (StatusError Unauthenticated (Literal ''authentication required'')))
      | Some userCtx \<Rightarrow>
          if entityId \<noteq> uc_EntityID userCtx then
            (db, Inl (StatusError PermissionDenied (Literal ''access denied: entity mismatch'')))
          else
            (case svc_DeactivateVendor db g id' entityId (uc_UserID userCtx) of
               (db', Some err) \<Rightarrow> (db', Inl (toGRPCError err))
             | (db', None) \<Rightarrow>
                 (db', Inr \<lparr>rsp_Success = True, rsp_Message = ''Vendor deactivated successfully''\<rparr>)))"

definition grpc_ValidateVendor ::
  "Store \<Rightarrow> UserContext option \<Rightarrow> string \<Rightarrow> string \<Rightarrow> grpc_status + pb_ValidateVendorResponse" where
  "grpc_ValidateVendor db ctx id' entityId =
     (case svc_ValidateVendor db id' entityId of
        (valid, msg, Some err) \<Rightarrow> Inl (toGRPCError err)
      | (valid, msg, None) \<Rightarrow> Inr \<lparr>vr_Valid = valid, vr_Message = msg\<rparr>)"

definition grpc_UpdateBalance ::
  "Store \<Rightarrow> StoreGen \<Rightarrow> UserContext option \<Rightarrow> string \<Rightarrow> string \<Rightarrow> int \<Rightarrow> Store \<times> (grpc_status + Response)" where
  "grpc_UpdateBalance db g ctx id' entityId amount =
     (case svc_UpdateBalance db g id' entityId amount of
        (db', Some err) \<Rightarrow> (db', Inl (toGRPCError err))
      | (db', None) \<Rightarrow>
          (db', Inr \<lparr>rsp_Success = True, rsp_Message = ''Vendor balance updated successfully''\<rparr>))"

subsection \<open>HTTP: requests and responses\<close>

text \<open>
  A request, as far as a handler can read it: the method, the query parameters and
  the headers as lists of pairs, and the body as the JSON decoder returns it for
  the type the handler decodes into (\<open>None\<close> when decoding fails). The response
  is the status code and what is written as the body.
\<close>

record 'b HttpRequest =
  rq_Method :: string
  rq_Query :: "(string \<times> string) list"
  rq_Header :: "(string \<times> string) list"
  rq_Body :: "'b option"

text \<open>\<^verbatim>\<open>r.URL.Query().Get(key)\<close>: the first value of the key, the empty string when it is missing.\<close>

definition query_get :: "'b HttpRequest \<Rightarrow> string \<Rightarrow> string" where
  "query_get r key = (case map_of (rq_Query r) key of None \<Rightarrow> [] | Some v \<Rightarrow> v)"

text \<open>
  \<^verbatim>\<open>strconv.Atoi\<close>, for callers that drop its error: 0 for text that is not a
  decimal number with an optional sign, the nearest 64-bit value for a number out of range.
\<close>

definition digit_of :: "char \<Rightarrow> nat option" where
  "digit_of c = map_of (zip ''0123456789'' [0, 1, 2, 3, 4, 5, 6, 7, 8, 9]) c"

fun parse_digits :: "string \<Rightarrow> nat \<Rightarrow> nat option" where
  "parse_digits [] acc = Some acc"
| "parse_digits (c # cs) acc =
     (case digit_of c of None \<Rightarrow> None | Some d \<Rightarrow> parse_digits cs (10 * acc + d))"

definition Atoi :: "string \<Rightarrow> int" where
  "Atoi s =
     (let neg = (s \<noteq> [] \<and> hd s = CHR ''-'');
          ds = (if s \<noteq> [] \<and> (hd s = CHR ''-'' \<or> hd s = CHR ''+'') then tl s else s)
      in if ds = [] then 0
         else case parse_digits ds 0 of
                None \<Rightarrow> 0
              | Some n \<Rightarrow> if neg then max (- (2 ^ 63)) (- int n) else min (2 ^ 63 - 1) (int n))"

datatype http_body =
    ErrorBody message
  | VendorBody Vendor
  | VendorListBody "Vendor list" int int int
  | ValidationBody bool string
  | ContactsBody "VendorContact list"
  | ContactBody VendorContact
  | StatusBody string
  | NoBody

type_synonym http_response = "nat \<times> http_body"

definition StatusOK :: nat where "StatusOK = 200"

definition StatusCreated :: nat where "StatusCreated = 201"

definition StatusNoContent :: nat where "StatusNoContent = 204"

definition StatusBadRequest :: nat where "StatusBadRequest = 400"

definition StatusNotFound :: nat where "StatusNotFound = 404"

definition StatusMethodNotAllowed :: nat where "StatusMethodNotAllowed = 405"

definition StatusConflict :: nat where "StatusConflict = 409"

definition StatusInternalServerError :: nat where "StatusInternalServerError = 500"

text \<open>\<^verbatim>\<open>http.Error(w, text, code)\<close>.\<close>

definition http_Error :: "message \<Rightarrow> nat \<Rightarrow> http_response" where
  "http_Error msg code = (code, ErrorBody msg)"

subsection \<open>HTTP: handlers\<close>

definition http_CreateVendor ::
  "unicode \<Rightarrow> Store \<Rightarrow> StoreGen \<Rightarrow> CreateVendorRequest HttpRequest \<Rightarrow> Store \<times> http_response" where
  "http_CreateVendor U db g r =
     (if rq_Method r \<noteq> ''POST'' then
        (db, http_Error (Literal ''Method not allowed'') StatusMethodNotAllowed)
      else case rq_Body r of
        None \<Rightarrow> (db, http_Error (Literal ''Invalid request body'') StatusBadRequest)
      | Some req \<Rightarrow>
          (case svc_CreateVendor U db g req of
             (db', Inl err) \<Rightarrow> (db', http_Error (ErrorText err) StatusInternalServerError)
           | (db', Inr vendor) \<Rightarrow> (db', (StatusCreated, VendorBody vendor))))"

definition http_GetVendor :: "Store \<Rightarrow> unit HttpRequest \<Rightarrow> http_response" where
  "http_GetVendor db r =
     (if rq_Method r \<noteq> ''GET'' then http_Error (Literal ''Method not allowed'') StatusMethodNotAllowed
      else if query_get r ''id'' = [] \<or> query_get r ''entity_id'' = [] then
        http_Error (Literal ''Vendor ID and Entity ID are required'') StatusBadRequest
      else case svc_GetVendor db (query_get r ''id'') (query_get r ''entity_id'') of
        Inl err \<Rightarrow> http_Error (ErrorText err) StatusNotFound
      | Inr vendor \<Rightarrow> (StatusOK, VendorBody vendor))"

definition http_GetVendorByCode :: "Store \<Rightarrow> unit HttpRequest \<Rightarrow> http_response" where
  "http_GetVendorByCode db r =
     (if rq_Method r \<noteq> ''GET'' then http_Error (Literal ''Method not allowed'') StatusMethodNotAllowed
      else if query_get r ''vendor_code'' = [] \<or> query_get r ''entity_id'' = [] then
        http_Error (Literal ''Vendor Code and Entity ID are required'') StatusBadRequest
      else case svc_GetVendorByCode db (query_get r ''vendor_code'') (query_get r ''entity_id'') of
        Inl err \<Rightarrow> http_Error (ErrorText err) StatusNotFound
      | Inr vendor \<Rightarrow> (StatusOK, VendorBody vendor))"

text \<open>
  The parameters of \<^verbatim>\<open>ListVendors\<close>: a filter is passed on only when its text is
  not empty; \<^verbatim>\<open>page\<close> below 1 becomes 1; \<^verbatim>\<open>page_size\<close> outside 1..100 becomes 50.
\<close>

definition optional_param :: "'b HttpRequest \<Rightarrow> string \<Rightarrow> string option" where
  "optional_param r key = (if query_get r key \<noteq> [] then Some (query_get r key) else None)"

definition page_param :: "'b HttpRequest \<Rightarrow> int" where
  "page_param r = (if Atoi (query_get r ''page'') < 1 then 1 else Atoi (query_get r ''page''))"

definition page_size_param :: "'b HttpRequest \<Rightarrow> int" where
  "page_size_param r =
     (if Atoi (query_get r ''page_size'') < 1 \<or> Atoi (query_get r ''page_size'') > 100 then 50
      else Atoi (query_get r ''page_size''))"

definition http_ListVendors :: "Store \<Rightarrow> unit HttpRequest \<Rightarrow> http_response" where
  "http_ListVendors db r =
     (if rq_Method r \<noteq> ''GET'' then http_Error (Literal ''Method not allowed'') StatusMethodNotAllowed
      else if query_get r ''entity_id'' = [] then
        http_Error (Literal ''Entity ID is required'') StatusBadRequest
      else case svc_ListVendors db (query_get r ''entity_id'')
                  (optional_param r ''status'') (optional_param r ''vendor_type'')
                  (query_get r ''active_only'' = ''true'') (page_param r) (page_size_param r) of
             Inl err \<Rightarrow> http_Error (ErrorText err) StatusInternalServerError
           | Inr (vendors', total') \<Rightarrow>
               (StatusOK, VendorListBody vendors' total' (page_param r) (page_size_param r)))"

definition http_UpdateVendor ::
  "unicode \<Rightarrow> Store \<Rightarrow> StoreGen \<Rightarrow> UpdateVendorRequest HttpRequest \<Rightarrow> Store \<times> http_response" where
  "http_UpdateVendor U db g r =
     (if rq_Method r \<noteq> ''PUT'' \<and> rq_Method r \<noteq> ''PATCH'' then
        (db, http_Error (Literal ''Method not allowed'') StatusMethodNotAllowed)
      else case rq_Body r of
        None \<Rightarrow> (db, http_Error (Literal ''Invalid request body'') StatusBadRequest)
      | Some req \<Rightarrow>
          (case svc_UpdateVendor U db g req of
             (db', Inl err) \<Rightarrow> (db', http_Error (ErrorText err) StatusInternalServerError)
           | (db', Inr vendor) \<Rightarrow> (db', (StatusOK, VendorBody vendor))))"

definition http_DeleteVendor :: "Store \<Rightarrow> unit HttpRequest \<Rightarrow> Store \<times> http_response" where
  "http_DeleteVendor db r =
     (if rq_Method r \<noteq> ''DELETE'' then
        (db, http_Error (Literal ''Method not allowed'') StatusMethodNotAllowed)
      else if query_get r ''id'' = [] \<or> query_get r ''entity_id'' = [] then
        (db, http_Error (Literal ''Vendor ID and Entity ID are required'') StatusBadRequest)
      else case svc_DeleteVendor db (query_get r ''id'') (query_get r ''entity_id'') of
        (db', Some err) \<Rightarrow> (db', http_Error (ErrorText err) StatusInternalServerError)
      | (db', None) \<Rightarrow> (db', (StatusNoContent, NoBody)))"

definition http_ValidateVendor :: "Store \<Rightarrow> unit HttpRequest \<Rightarrow> http_response" where
  "http_ValidateVendor db r =
     (if rq_Method r \<noteq> ''GET'' then http_Error (Literal ''Method not allowed'') StatusMethodNotAllowed
      else if query_get r ''id'' = [] \<or> query_get r ''entity_id'' = [] then
        http_Error (Literal ''Vendor ID and Entity ID are required'') StatusBadRequest
      else case svc_ValidateVendor db (query_get r ''id'') (query_get r ''entity_id'') of
        (valid, msg, Some err) \<Rightarrow> http_Error (ErrorText err) StatusInternalServerError
      | (valid, msg, None) \<Rightarrow> (StatusOK, ValidationBody valid msg))"

definition http_GetVendorContacts :: "Store \<Rightarrow> unit HttpRequest \<Rightarrow> http_response" where
  "http_GetVendorContacts db r =
     (if rq_Method r \<noteq> ''GET'' then http_Error (Literal ''Method not allowed'') StatusMethodNotAllowed
      else if query_get r ''vendor_id'' = [] then
        http_Error (Literal ''Vendor ID is required'') StatusBadRequest
      else case svc_GetVendorContacts db (query_get r ''vendor_id'') of
        Inl err \<Rightarrow> http_Error (ErrorText err) StatusInternalServerError
      | Inr contacts \<Rightarrow> (StatusOK, ContactsBody contacts))"

definition http_AddVendorContact ::
  "unicode \<Rightarrow> Store \<Rightarrow> StoreGen \<Rightarrow> AddContactRequest HttpRequest \<Rightarrow> Store \<times> http_response" where
  "http_AddVendorContact U db g r =
     (if rq_Method r \<noteq> ''POST'' then
        (db, http_Error (Literal ''Method not allowed'') StatusMethodNotAllowed)
      else case rq_Body r of
        None \<Rightarrow> (db, http_Error (Literal ''Invalid request body'') StatusBadRequest)
      | Some req \<Rightarrow>
          (case svc_AddVendorContact U db g req of
             (db', Inl err) \<Rightarrow> (db', http_Error (ErrorText err) StatusInternalServerError)
           | (db', Inr contact) \<Rightarrow> (db', (StatusCreated, ContactBody contact))))"

text \<open>
  \<^verbatim>\<open>UpdateBalance\<close> decodes the body into the fields \<^verbatim>\<open>vendor_id\<close>,
  \<^verbatim>\<open>entity_id\<close> and \<^verbatim>\<open>amount\<close>.
\<close>

record BalanceRequest =
  b_VendorID :: string
  b_EntityID :: string
  b_Amount :: int

definition http_UpdateBalance ::
  "Store \<Rightarrow> StoreGen \<Rightarrow> BalanceRequest HttpRequest \<Rightarrow> Store \<times> http_response" where
  "http_UpdateBalance db g r =
     (if rq_Method r \<noteq> ''POST'' then
        (db, http_Error (Literal ''Method not allowed'') StatusMethodNotAllowed)
      else case rq_Body r of
        None \<Rightarrow> (db, http_Error (Literal ''Invalid request body'') StatusBadRequest)
      | Some req \<Rightarrow>
          if b_VendorID req = [] \<or> b_EntityID req = [] then
            (db, http_Error (Literal ''Vendor ID and Entity ID are required'') StatusBadRequest)
          else case svc_UpdateBalance db g (b_VendorID req) (b_EntityID req) (b_Amount req) of
            (db', Some err) \<Rightarrow> (db', http_Error (ErrorText err) StatusInternalServerError)
          | (db', None) \<Rightarrow> (db', (StatusOK, StatusBody ''updated'')))"

subsection \<open>The mapping of error kinds the specification asks for\<close>

text \<open>
  This definition follows the specification, not the code: the wire status it names
  for each kind of domain error (\<^verbatim>\<open>NotFound\<close> 404, \<^verbatim>\<open>AlreadyExists\<close> 409,
  \<^verbatim>\<open>InvalidInput\<close> 400, \<^verbatim>\<open>Internal\<close> 500). It is what the handlers above are
  compared with.
\<close>

fun spec_wire_status :: "ErrCode \<Rightarrow> nat" where
  "spec_wire_status ErrCodeNotFound = StatusNotFound"
| "spec_wire_status ErrCodeAlreadyExists = StatusConflict"
| "spec_wire_status ErrCodeInvalidInput = StatusBadRequest"
| "spec_wire_status ErrCodeInternal = StatusInternalServerError"

section \<open>Sample data\<close>

text \<open>
  The text of the samples is ASCII, for which \<open>ToUpper\<close> and \<open>ToLower\<close> do not
  consult the parameter \<open>unicode\<close>; the facts about the samples are proved for
  every value of it. A closed statement needs one value: \<open>unmapped\<close> is that
  value and nothing more. It is not the case mapping of Go.
\<close>

definition unmapped :: unicode where
  "unmapped = \<lparr>Map_ToUpper = (\<lambda>s. s), Map_ToLower = (\<lambda>s. s)\<rparr>"

definition entity_a :: string where
  "entity_a = ''aaaaaaaa-0000-4000-8000-000000000001''"

definition entity_b :: string where
  "entity_b = ''bbbbbbbb-0000-4000-8000-000000000002''"

definition vendor_id_1 :: string where
  "vendor_id_1 = ''11111111-0000-4000-8000-000000000001''"

definition vendor_id_2 :: string where
  "vendor_id_2 = ''22222222-0000-4000-8000-000000000002''"

definition user_1 :: string where
  "user_1 = ''cccccccc-0000-4000-8000-000000000003''"

definition gen_1 :: StoreGen where
  "gen_1 = \<lparr>gen_id = vendor_id_1, gen_now = ''2024-01-15T10:00:00Z''\<rparr>"

definition gen_2 :: StoreGen where
  "gen_2 = \<lparr>gen_id = vendor_id_2, gen_now = ''2024-01-16T10:00:00Z''\<rparr>"

text \<open>An active vendor of entity A whose balance has reached its credit limit.\<close>

definition sample_vendor :: Vendor where
  "sample_vendor =
     \<lparr>ID = vendor_id_1, EntityID = entity_a, VendorCode = ''V001'', VendorName = ''Acme'',
      LegalName = None, VendorType = ''supplier'', Status = ''active'', TaxID = None,
      IsTaxExempt = False, Is1099Vendor = False, Email = None, Phone = None, Fax = None,
      Website = None, AddressLine1 = None, AddressLine2 = None, City = None,
      StateProvince = None, PostalCode = None, Country = ''US'', PaymentTerms = ''NET30'',
      PaymentMethod = None, Currency = ''USD'', CreditLimit = Some 5000000,
      CurrentBalance = 5000000, BankName = None, BankAccountNumber = None,
      BankRoutingNumber = None, SwiftCode = None, IBAN = None, Notes = None, Tags = [],
      CreatedBy = Some user_1, CreatedAt = ''2024-01-15T10:00:00Z'', UpdatedBy = None,
      UpdatedAt = ''2024-01-15T10:00:00Z''\<rparr>"

definition empty_store :: Store where
  "empty_store =
     \<lparr>vendors = [], vendor_contacts = [], vendor_documents = [], collate_le = bytes_le\<rparr>"

definition sample_store :: Store where
  "sample_store = empty_store\<lparr>vendors := [sample_vendor]\<rparr>"

definition create_req_1 :: CreateVendorRequest where
  "create_req_1 =
     \<lparr>c_EntityID = entity_a, c_VendorCode = ''v001'', c_VendorName = ''Acme'',
      c_LegalName = None, c_VendorType = ''Supplier'', c_TaxID = None,
      c_IsTaxExempt = False, c_Is1099Vendor = False, c_Email = None, c_Phone = None,
      c_Fax = None, c_Website = None, c_AddressLine1 = None, c_AddressLine2 = None,
      c_City = None, c_StateProvince = None, c_PostalCode = None, c_Country = ''us'',
      c_PaymentTerms = ''NET30'', c_PaymentMethod = Some ''ach'', c_Currency = ''usd'',
      c_CreditLimit = Some 5000000, c_BankName = None, c_BankAccountNumber = None,
      c_BankRoutingNumber = None, c_SwiftCode = None, c_IBAN = None, c_Notes = None,
      c_Tags = [], c_CreatedBy = user_1\<rparr>"

definition create_req_2 :: CreateVendorRequest where
  "create_req_2 = create_req_1\<lparr>c_VendorCode := ''V001''\<rparr>"

definition created_1 :: Vendor where
  "created_1 =
     sample_vendor\<lparr>Status := ''pending_approval'', CurrentBalance := 0, PaymentMethod := Some ''ach''\<rparr>"

definition store_1 :: Store where
  "store_1 = empty_store\<lparr>vendors := [created_1]\<rparr>"





definition balance_vendor :: Vendor where
  "balance_vendor = sample_vendor\<lparr>CurrentBalance := 50\<rparr>"

definition balance_store :: Store where
  "balance_store = empty_store\<lparr>vendors := [balance_vendor]\<rparr>"

definition update_req_1 :: UpdateVendorRequest where
  "update_req_1 =
     \<lparr>u_ID = vendor_id_1, u_EntityID = entity_a, u_VendorCode = ''V001'',
      u_VendorName = ''Acme Corporation'', u_LegalName = Some ''Acme Corporation Inc.'',
      u_VendorType = ''supplier'', u_Status = ''suspended'', u_TaxID = None,
      u_IsTaxExempt = False, u_Is1099Vendor = False, u_Email = None, u_Phone = None,
      u_Fax = None, u_Website = None, u_AddressLine1 = None, u_AddressLine2 = None,
      u_City = None, u_StateProvince = None, u_PostalCode = None, u_Country = ''us'',
      u_PaymentTerms = ''NET60'', u_PaymentMethod = None, u_Currency = ''usd'',
      u_CreditLimit = Some 9000000, u_BankName = None, u_BankAccountNumber = None,
      u_BankRoutingNumber = None, u_SwiftCode = None, u_IBAN = None, u_Notes = None,
      u_Tags = [], u_UpdatedBy = user_1\<rparr>"

definition updated_vendor :: Vendor where
  "updated_vendor =
     sample_vendor\<lparr>VendorName := ''Acme Corporation'', LegalName := Some ''Acme Corporation Inc.'',
                   Status := ''suspended'', PaymentTerms := ''NET60'', CreditLimit := Some 9000000,
                   UpdatedBy := Some user_1, UpdatedAt := gen_now gen_2\<rparr>"

definition caller_a :: UserContext where
  "caller_a = \<lparr>uc_UserID = user_1, uc_EntityID = entity_a\<rparr>"

definition caller_b :: UserContext where
  "caller_b = \<lparr>uc_UserID = user_1, uc_EntityID = entity_b\<rparr>"

definition sample_contact :: VendorContact where
  "sample_contact =
     \<lparr>ct_ID = ''33333333-0000-4000-8000-000000000003'', ct_VendorID = vendor_id_1,
      ct_ContactType = ''primary'', ct_FirstName = ''John'', ct_LastName = ''Smith'',
      ct_Title = None, ct_Email = Some ''john.smith@acme.com'', ct_Phone = None,
      ct_Mobile = None, ct_IsPrimary = True, ct_Notes = None,
      ct_CreatedAt = ''2024-01-15T10:00:00Z'', ct_UpdatedAt = ''2024-01-15T10:00:00Z''\<rparr>"

definition contact_store :: Store where
  "contact_store = sample_store\<lparr>vendor_contacts := [sample_contact]\<rparr>"

definition contacts_request_a :: "unit HttpRequest" where
  "contacts_request_a =
     \<lparr>rq_Method = ''GET'', rq_Query = [(''vendor_id'', vendor_id_1), (''entity_id'', entity_a)],
      rq_Header = [], rq_Body = None\<rparr>"

definition contacts_request_b :: "unit HttpRequest" where
  "contacts_request_b =
     \<lparr>rq_Method = ''GET'', rq_Query = [(''entity_id'', entity_b), (''vendor_id'', vendor_id_1)],
      rq_Header = [(''X-Entity-ID'', entity_b)], rq_Body = None\<rparr>"

definition post_create_2 :: "CreateVendorRequest HttpRequest" where
  "post_create_2 = \<lparr>rq_Method = ''POST'', rq_Query = [], rq_Header = [], rq_Body = Some create_req_2\<rparr>"

definition put_update_1 :: "UpdateVendorRequest HttpRequest" where
  "put_update_1 = \<lparr>rq_Method = ''PUT'', rq_Query = [], rq_Header = [], rq_Body = Some update_req_1\<rparr>"

definition vendor_query :: "string \<Rightarrow> unit HttpRequest" where
  "vendor_query method =
     \<lparr>rq_Method = method,
      rq_Query = [(''id'', vendor_id_1), (''entity_id'', entity_a), (''vendor_code'', ''V001''),
                  (''status'', ''bogus'')],
      rq_Header = [], rq_Body = None\<rparr>"

definition contact_req_1 :: AddContactRequest where
  "contact_req_1 =
     \<lparr>a_VendorID = vendor_id_1, a_ContactType = ''boss'', a_FirstName = ''John'',
      a_LastName = ''Smith'', a_Title = None, a_Email = None, a_Phone = None, a_Mobile = None,
      a_IsPrimary = False, a_Notes = None\<rparr>"

definition post_contact_1 :: "AddContactRequest HttpRequest" where
  "post_contact_1 = \<lparr>rq_Method = ''POST'', rq_Query = [], rq_Header = [], rq_Body = Some contact_req_1\<rparr>"

definition post_balance_1 :: "BalanceRequest HttpRequest" where
  "post_balance_1 =
     \<lparr>rq_Method = ''POST'', rq_Query = [], rq_Header = [],
      rq_Body = Some \<lparr>b_VendorID = vendor_id_1, b_EntityID = entity_a, b_Amount = 100\<rparr>\<rparr>"

definition pb_update_1 :: pb_UpdateVendorRequest where
  "pb_update_1 =
     \<lparr>pu_Id = vendor_id_1, pu_EntityId = entity_a, pu_VendorCode = ''V001'',
      pu_VendorName = ''Acme'', pu_LegalName = [], pu_VendorType = ''supplier'',
      pu_Status = ''active'', pu_TaxId = [], pu_IsTaxExempt = False, pu_Is_1099Vendor = False,
      pu_Email = [], pu_Phone = [], pu_Fax = [], pu_Website = [], pu_AddressLine1 = [],
      pu_AddressLine2 = [], pu_City = [], pu_StateProvince = [], pu_PostalCode = [],
      pu_Country = ''US'', pu_PaymentTerms = ''NET30'', pu_PaymentMethod = [],
      pu_Currency = ''USD'', pu_CreditLimit = 0, pu_BankName = [], pu_BankAccountNumber = [],
      pu_BankRoutingNumber = [], pu_SwiftCode = [], pu_Iban = [], pu_Notes = [], pu_Tags = []\<rparr>"

definition pb_create_1 :: pb_CreateVendorRequest where
  "pb_create_1 =
     \<lparr>pc_EntityId = entity_a, pc_VendorCode = ''v001'', pc_VendorName = ''Acme'',
      pc_LegalName = [], pc_VendorType = ''Supplier'', pc_TaxId = [], pc_IsTaxExempt = False,
      pc_Is_1099Vendor = False, pc_Email = [], pc_Phone = [], pc_Fax = [], pc_Website = [],
      pc_AddressLine1 = [], pc_AddressLine2 = [], pc_City = [], pc_StateProvince = [],
      pc_PostalCode = [], pc_Country = ''us'', pc_PaymentTerms = ''NET30'',
      pc_PaymentMethod = ''ach'', pc_Currency = ''usd'', pc_CreditLimit = 0, pc_BankName = [],
      pc_BankAccountNumber = [], pc_BankRoutingNumber = [], pc_SwiftCode = [], pc_Iban = [],
      pc_Notes = [], pc_Tags = []\<rparr>"

definition pb_create_2 :: pb_CreateVendorRequest where
  "pb_create_2 = pb_create_1\<lparr>pc_VendorCode := ''V001''\<rparr>"

definition unlimited_vendor :: Vendor where
  "unlimited_vendor =
     sample_vendor\<lparr>CreditLimit := None, UpdatedBy := Some user_1, UpdatedAt := gen_now gen_2\<rparr>"

section \<open>Properties\<close>

subsection \<open>Evaluation of the string functions\<close>

lemmas string_eval =
  ToUpper_def ToLower_def isASCII_def upper_byte_def lower_byte_def lower_letters_def
  upper_letters_def

lemma show_int_5000000: "show_int 5000000 = ''5000000''"
  by (simp add: show_int_def show_nat.simps digit_char_def)

subsection \<open>ValidateVendor\<close>

lemma ValidateVendor_found:
  assumes "repo_GetByID db vendorID entityID = Inr v"
  shows "repo_ValidateVendor db vendorID entityID =
     (if Status v \<noteq> ''active'' then
        (False, ''vendor status is '' @ [apostrophe] @ Status v @ [apostrophe] @ '', must be active'', None)
      else if CreditLimit v \<noteq> None \<and> CurrentBalance v \<ge> the (CreditLimit v) then
        (False, ''vendor has exceeded credit limit: balance='' @ show_int (CurrentBalance v)
                  @ '', limit='' @ show_int (the (CreditLimit v)), None)
      else (True, [], None))"
  unfolding repo_ValidateVendor_def assms by simp

text \<open>
  Claim C1. For a vendor the store holds under \<open>(vendorID, entityID)\<close>,
  \<^verbatim>\<open>ValidateVendor\<close> answers valid exactly when the status is \<^verbatim>\<open>active\<close> and
  either no credit limit is set or the balance is below it. A vendor that is not
  active gets \<^verbatim>\<open>vendor status is '<status>', must be active\<close>; an active one whose
  balance has reached its limit (equality included) gets
  \<^verbatim>\<open>vendor has exceeded credit limit: balance=<b>, limit=<l>\<close> with the stored
  numbers; otherwise the answer is valid with an empty message.
\<close>

theorem C1_ValidateVendor:
  assumes "repo_GetByID db vendorID entityID = Inr v"
  shows "(fst (svc_ValidateVendor db vendorID entityID) \<longleftrightarrow>
            Status v = ''active'' \<and> (CreditLimit v = None \<or> CurrentBalance v < the (CreditLimit v)))
       \<and> (Status v \<noteq> ''active'' \<longrightarrow>
            svc_ValidateVendor db vendorID entityID =
              (False, ''vendor status is '' @ [apostrophe] @ Status v @ [apostrophe] @ '', must be active'', None))
       \<and> (Status v = ''active'' \<and> CreditLimit v = Some l \<and> CurrentBalance v \<ge> l \<longrightarrow>
            svc_ValidateVendor db vendorID entityID =
              (False, ''vendor has exceeded credit limit: balance='' @ show_int (CurrentBalance v)
                        @ '', limit='' @ show_int l, None))
       \<and> (Status v = ''active'' \<and> (CreditLimit v = None \<or> CurrentBalance v < the (CreditLimit v)) \<longrightarrow>
            svc_ValidateVendor db vendorID entityID = (True, [], None))"
proof (cases "Status v = ''active''")
  case False
  then show ?thesis
    unfolding svc_ValidateVendor_def ValidateVendor_found [OF assms] by simp
next
  case active: True
  show ?thesis
  proof (cases "CreditLimit v")
    case None
    with active show ?thesis
      unfolding svc_ValidateVendor_def ValidateVendor_found [OF assms] by simp
  next
    case (Some limit)
    with active show ?thesis
      unfolding svc_ValidateVendor_def ValidateVendor_found [OF assms]
      by (cases "CurrentBalance v < limit") simp_all
  qed
qed

text \<open>The scenario of the specification: limit and balance both 5000000.\<close>

lemma sample_GetByID: "repo_GetByID sample_store vendor_id_1 entity_a = Inr sample_vendor"
  by (simp add: repo_GetByID_def sample_store_def empty_store_def sample_vendor_def)

theorem C1_ValidateVendor_witness:
  "repo_GetByID sample_store vendor_id_1 entity_a = Inr sample_vendor
   \<and> Status sample_vendor = ''active''
   \<and> CreditLimit sample_vendor = Some 5000000 \<and> CurrentBalance sample_vendor = 5000000
   \<and> svc_ValidateVendor sample_store vendor_id_1 entity_a =
       (False, ''vendor has exceeded credit limit: balance=5000000, limit=5000000'', None)"
proof -
  note h = sample_GetByID
  have s: "Status sample_vendor = ''active''"
    and l: "CreditLimit sample_vendor = Some 5000000"
    and b: "CurrentBalance sample_vendor = 5000000"
    by (simp_all add: sample_vendor_def)
  have "Status sample_vendor = ''active'' \<and> CreditLimit sample_vendor = Some 5000000
          \<and> CurrentBalance sample_vendor \<ge> 5000000 \<longrightarrow>
        svc_ValidateVendor sample_store vendor_id_1 entity_a =
          (False, ''vendor has exceeded credit limit: balance='' @ show_int (CurrentBalance sample_vendor)
                        @ '', limit='' @ show_int 5000000, None)"
    using C1_ValidateVendor [OF h, of 5000000] by blast
  with s l b have "svc_ValidateVendor sample_store vendor_id_1 entity_a =
          (False, ''vendor has exceeded credit limit: balance='' @ show_int 5000000
                        @ '', limit='' @ show_int 5000000, None)"
    by simp
  then have "svc_ValidateVendor sample_store vendor_id_1 entity_a =
       (False, ''vendor has exceeded credit limit: balance=5000000, limit=5000000'', None)"
    unfolding show_int_5000000 by simp
  with h s l b show ?thesis by blast
qed

subsection \<open>CreateVendor: what is returned and stored\<close>

lemma repo_Create_success:
  assumes "repo_Create db g v = (db', Inr v')"
  shows "db' = db\<lparr>vendors := vendors db @ [inserted_row g v]\<rparr>"
    and "v' = v\<lparr>ID := gen_id g, CreatedAt := gen_now g, UpdatedAt := gen_now g\<rparr>"
    and "vendor_constraints (vendors db) (inserted_row g v) = None"
  using assms by (simp_all add: repo_Create_def split: option.splits)

lemma svc_CreateVendor_success:
  assumes "svc_CreateVendor U db g req = (db', Inr v)"
  shows "repo_Create db g (new_vendor U req (ToLower U (c_VendorType req))) = (db', Inr v)"
  using assms by (simp add: svc_CreateVendor_def split: sum.splits if_splits)

lemma constraints_fresh_id:
  assumes "vendor_constraints others row = None"
  shows "\<not> list_ex (\<lambda>r. ID r = ID row) others"
  using assms by (simp add: vendor_constraints_def split: if_splits)

lemma find_append_fresh:
  assumes "\<not> list_ex P xs" and "P x"
  shows "find P (xs @ [x]) = Some x"
  using assms by (induction xs) simp_all

text \<open>
  Claim C2. Whenever \<^verbatim>\<open>CreateVendor\<close> returns a vendor, that vendor and the row
  the store now holds for it have the vendor code, country and currency of the
  request in upper case, the vendor type in lower case, the status
  \<^verbatim>\<open>pending_approval\<close> and the balance 0. The request has no field for the status
  or the balance, so nothing a caller sends can change the last two.
\<close>

theorem C2_CreateVendor_normalised:
  assumes "svc_CreateVendor U db g req = (db', Inr vendor)"
  shows "VendorCode vendor = ToUpper U (c_VendorCode req)
       \<and> Country vendor = ToUpper U (c_Country req)
       \<and> Currency vendor = ToUpper U (c_Currency req)
       \<and> VendorType vendor = ToLower U (c_VendorType req)
       \<and> Status vendor = ''pending_approval''
       \<and> CurrentBalance vendor = 0
       \<and> (\<exists>row. vendors db' = vendors db @ [row]
              \<and> repo_GetByID db' (ID vendor) (c_EntityID req) = Inr row
              \<and> VendorCode row = ToUpper U (c_VendorCode req)
              \<and> Country row = ToUpper U (c_Country req)
              \<and> Currency row = ToUpper U (c_Currency req)
              \<and> VendorType row = ToLower U (c_VendorType req)
              \<and> Status row = ''pending_approval''
              \<and> CurrentBalance row = 0)"
proof -
  let ?v = "new_vendor U req (ToLower U (c_VendorType req))"
  let ?row = "inserted_row g ?v"
  note created = repo_Create_success [OF svc_CreateVendor_success [OF assms]]
  have returned: "vendor = ?v\<lparr>ID := gen_id g, CreatedAt := gen_now g, UpdatedAt := gen_now g\<rparr>"
    by (rule created(2))
  have stored: "vendors db' = vendors db @ [?row]"
    using created(1) by simp
  have fresh: "\<not> list_ex (\<lambda>r. ID r = gen_id g \<and> EntityID r = c_EntityID req) (vendors db)"
    using constraints_fresh_id [OF created(3)]
    by (simp add: inserted_row_def list_ex_iff)
  have "find (\<lambda>r. ID r = gen_id g \<and> EntityID r = c_EntityID req) (vendors db @ [?row]) = Some ?row"
    by (rule find_append_fresh [OF fresh]) (simp add: inserted_row_def new_vendor_def)
  then have lookup: "repo_GetByID db' (ID vendor) (c_EntityID req) = Inr ?row"
    by (simp add: repo_GetByID_def stored returned)
  have fields: "VendorCode vendor = ToUpper U (c_VendorCode req)"
    "Country vendor = ToUpper U (c_Country req)"
    "Currency vendor = ToUpper U (c_Currency req)"
    "VendorType vendor = ToLower U (c_VendorType req)"
    "Status vendor = ''pending_approval''"
    "CurrentBalance vendor = 0"
    by (simp_all add: returned new_vendor_def)
  have row_fields: "VendorCode ?row = ToUpper U (c_VendorCode req)"
    "Country ?row = ToUpper U (c_Country req)"
    "Currency ?row = ToUpper U (c_Currency req)"
    "VendorType ?row = ToLower U (c_VendorType req)"
    "Status ?row = ''pending_approval''"
    "CurrentBalance ?row = 0"
    by (simp_all add: inserted_row_def new_vendor_def)
  from fields stored lookup row_fields show ?thesis by blast
qed

text \<open>
  The scenario of the specification: code \<^verbatim>\<open>v001\<close>, country \<^verbatim>\<open>us\<close>, currency
  \<^verbatim>\<open>usd\<close>, sent to an empty store.
\<close>

lemma new_vendor_1:
  "inserted_row gen_1 (new_vendor U create_req_1 ''supplier'') = created_1"
  "(new_vendor U create_req_1 ''supplier'')\<lparr>ID := gen_id gen_1, CreatedAt := gen_now gen_1,
      UpdatedAt := gen_now gen_1\<rparr> = created_1\<lparr>UpdatedBy := None\<rparr>"
  by (simp_all add: new_vendor_def create_req_1_def inserted_row_def gen_1_def created_1_def
        sample_vendor_def string_eval)

lemmas enum_eval =
  vendor_casts_def enum_cast_def vendor_type_enum_def vendor_status_enum_def
  payment_method_enum_def

lemma ids_differ:
  "vendor_id_2 \<noteq> vendor_id_1" "vendor_id_1 \<noteq> vendor_id_2"
  "entity_b \<noteq> entity_a" "entity_a \<noteq> entity_b"
  by (simp_all add: vendor_id_1_def vendor_id_2_def entity_a_def entity_b_def)

lemma created_1_fields:
  "ID created_1 = vendor_id_1" "EntityID created_1 = entity_a" "VendorCode created_1 = ''V001''"
  "Country created_1 = ''US''" "Currency created_1 = ''USD''" "VendorType created_1 = ''supplier''"
  "Status created_1 = ''pending_approval''" "CurrentBalance created_1 = 0"
  "CreditLimit created_1 = Some 5000000" "PaymentMethod created_1 = Some ''ach''"
  by (simp_all add: created_1_def sample_vendor_def)

lemma create_req_1_fields:
  "c_EntityID create_req_1 = entity_a" "c_VendorCode create_req_1 = ''v001''"
  "c_VendorType create_req_1 = ''Supplier''" "c_Currency create_req_1 = ''usd''"
  "c_Country create_req_1 = ''us''" "c_CreditLimit create_req_1 = Some 5000000"
  by (simp_all add: create_req_1_def)

lemma casts_created_1: "vendor_casts (new_vendor U create_req_1 ''supplier'') = None"
  by (simp add: enum_eval new_vendor_def create_req_1_def)

lemma repo_Create_1:
  "repo_Create empty_store gen_1 (new_vendor U create_req_1 ''supplier'') = (store_1, Inr created_1)"
proof -
  have "vendor_constraints [] created_1 = None"
    by (simp add: vendor_constraints_def created_1_fields)
  then show ?thesis
    by (simp add: repo_Create_def casts_created_1 new_vendor_1 store_1_def empty_store_def
          created_1_def sample_vendor_def)
qed

lemma first_create: "svc_CreateVendor U empty_store gen_1 create_req_1 = (store_1, Inr created_1)"
proof -
  have "repo_GetByCode empty_store ''v001'' entity_a = Inl (NotFound ''vendor'' ''v001'')"
    by (simp add: repo_GetByCode_def empty_store_def)
  moreover have "ToLower U ''Supplier'' = ''supplier''"
    by (simp add: string_eval)
  ultimately show ?thesis
    by (simp add: svc_CreateVendor_def create_req_1_fields validTypes_def repo_Create_1)
qed

theorem C2_CreateVendor_normalised_witness:
  "svc_CreateVendor unmapped empty_store gen_1 create_req_1 = (store_1, Inr created_1)
   \<and> c_VendorCode create_req_1 = ''v001'' \<and> c_Country create_req_1 = ''us''
   \<and> c_Currency create_req_1 = ''usd'' \<and> c_VendorType create_req_1 = ''Supplier''
   \<and> VendorCode created_1 = ''V001'' \<and> Country created_1 = ''US''
   \<and> Currency created_1 = ''USD'' \<and> VendorType created_1 = ''supplier''
   \<and> Status created_1 = ''pending_approval'' \<and> CurrentBalance created_1 = 0
   \<and> vendors store_1 = [created_1]"
proof -
  have up: "ToUpper unmapped ''v001'' = ''V001''" "ToUpper unmapped ''us'' = ''US''" "ToUpper unmapped ''usd'' = ''USD''"
    and low: "ToLower unmapped ''Supplier'' = ''supplier''"
    by (simp_all add: string_eval)
  from C2_CreateVendor_normalised [OF first_create]
  have "VendorCode created_1 = ToUpper unmapped (c_VendorCode create_req_1)"
    and "Country created_1 = ToUpper unmapped (c_Country create_req_1)"
    and "Currency created_1 = ToUpper unmapped (c_Currency create_req_1)"
    and "VendorType created_1 = ToLower unmapped (c_VendorType create_req_1)"
    and "Status created_1 = ''pending_approval''"
    and "CurrentBalance created_1 = 0"
    by blast+
  then show ?thesis
    using first_create by (simp add: create_req_1_fields up low store_1_def empty_store_def)
qed

subsection \<open>CreateVendor: a second vendor with the same code\<close>

text \<open>
  The same request again: the lookup of \<^verbatim>\<open>CreateVendor\<close> asks for \<^verbatim>\<open>v001\<close>, the
  store holds \<^verbatim>\<open>V001\<close>, and the \<^verbatim>\<open>INSERT\<close> runs into
  \<^verbatim>\<open>vendors_entity_code_unique\<close>.
\<close>

lemma second_create:
  "svc_CreateVendor U store_1 gen_2 create_req_1 =
     (store_1, Inl (Wrap (UniqueViolation ''vendors_entity_code_unique'') ErrCodeInternal
                      ''failed to create vendor''))"
proof -
  have "repo_GetByCode store_1 ''v001'' entity_a = Inl (NotFound ''vendor'' ''v001'')"
    by (simp add: repo_GetByCode_def store_1_def empty_store_def created_1_fields)
  moreover have "ToLower U ''Supplier'' = ''supplier''"
    by (simp add: string_eval)
  moreover have "inserted_row gen_2 (new_vendor U create_req_1 ''supplier'') =
      created_1\<lparr>ID := vendor_id_2, CreatedAt := gen_now gen_2, UpdatedAt := gen_now gen_2\<rparr>"
    by (simp add: new_vendor_def create_req_1_def inserted_row_def gen_2_def created_1_def
        sample_vendor_def string_eval)
  moreover have "vendor_constraints [created_1]
      (created_1\<lparr>ID := vendor_id_2, CreatedAt := gen_now gen_2, UpdatedAt := gen_now gen_2\<rparr>)
      = Some (UniqueViolation ''vendors_entity_code_unique'')"
    by (simp add: vendor_constraints_def created_1_fields ids_differ)
  ultimately show ?thesis
    by (simp add: svc_CreateVendor_def create_req_1_fields validTypes_def repo_Create_def
          casts_created_1 store_1_def empty_store_def)
qed

text \<open>
  When the lookup finds a row, \<^verbatim>\<open>CreateVendor\<close> answers \<^verbatim>\<open>AlreadyExists\<close>.
\<close>

lemma precheck_AlreadyExists:
  assumes "found (repo_GetByCode db (c_VendorCode req) (c_EntityID req))"
  shows "svc_CreateVendor U db g req = (db, Inl (AlreadyExists ''vendor'' (c_VendorCode req)))"
  using assms by (simp add: svc_CreateVendor_def found_def split: sum.splits)

lemma find_Some_if_ex:
  assumes "list_ex P xs"
  shows "\<exists>x. find P xs = Some x"
  using assms by (induction xs) auto

lemma GetByCode_found:
  assumes "list_ex (\<lambda>r. VendorCode r = code \<and> EntityID r = entityID) (vendors db)"
  shows "found (repo_GetByCode db code entityID)"
proof -
  from find_Some_if_ex [OF assms] obtain x
    where "find (\<lambda>r. VendorCode r = code \<and> EntityID r = entityID) (vendors db) = Some x" ..
  then show ?thesis by (simp add: repo_GetByCode_def found_def)
qed

text \<open>
  \<^verbatim>\<open>Create\<close> does not tell a uniqueness violation from any other error of the
  store: with a row of the same entity and code in the table it fails, and what it
  returns is wrapped with the code \<^verbatim>\<open>Internal\<close>.
\<close>

lemma duplicate_Create_fails:
  assumes "list_ex (\<lambda>r. EntityID r = EntityID vendor \<and> VendorCode r = VendorCode vendor) (vendors db)"
  shows "\<exists>cause. repo_Create db g vendor = (db, Inl (Wrap cause ErrCodeInternal ''failed to create vendor''))"
proof (cases "vendor_casts vendor")
  case (Some e)
  then show ?thesis by (simp add: repo_Create_def)
next
  case None
  have "vendor_constraints (vendors db) (inserted_row g vendor) \<noteq> None"
    using assms by (simp add: vendor_constraints_def inserted_row_def)
  then obtain e where "vendor_constraints (vendors db) (inserted_row g vendor) = Some e"
    by blast
  with None show ?thesis by (simp add: repo_Create_def)
qed

text \<open>
  Claim C3. Of two \<^verbatim>\<open>CreateVendor\<close> requests for the same entity whose codes are
  equal after upper-casing, the second is to fail with \<^verbatim>\<open>AlreadyExists\<close>, also
  when it is the store that detects the duplicate. The code misses both. It looks
  the code up as the request spells it and stores it upper-cased, so the second of
  two requests with the code \<^verbatim>\<open>v001\<close> passes the lookup; the store then refuses
  the row, and \<^verbatim>\<open>Create\<close> returns that violation with the code \<^verbatim>\<open>Internal\<close>.
\<close>

theorem C3_second_create_unique_violation:
  "svc_CreateVendor unmapped empty_store gen_1 create_req_1 = (store_1, Inr created_1)
   \<and> c_VendorCode create_req_1 = ''v001'' \<and> VendorCode created_1 = ''V001''
   \<and> repo_GetByCode store_1 (c_VendorCode create_req_1) (c_EntityID create_req_1)
       = Inl (NotFound ''vendor'' ''v001'')
   \<and> svc_CreateVendor unmapped store_1 gen_2 create_req_1 =
       (store_1, Inl (Wrap (UniqueViolation ''vendors_entity_code_unique'') ErrCodeInternal
                        ''failed to create vendor''))
   \<and> code_of (Wrap (UniqueViolation ''vendors_entity_code_unique'') ErrCodeInternal
                 ''failed to create vendor'') = ErrCodeInternal"
proof -
  have "repo_GetByCode store_1 (c_VendorCode create_req_1) (c_EntityID create_req_1)
       = Inl (NotFound ''vendor'' ''v001'')"
    by (simp add: repo_GetByCode_def store_1_def empty_store_def created_1_fields
          create_req_1_fields)
  then show ?thesis
    using first_create [of unmapped] second_create [of unmapped]
    by (simp add: create_req_1_fields created_1_fields)
qed

subsection \<open>ListVendors with a status filter and active-only\<close>

text \<open>
  \<^verbatim>\<open>ORDER BY\<close> keeps the rows it is given and, for a collation that compares any
  two texts and is transitive, returns them in order.
\<close>

lemma set_insert_by: "set (insert_by le x xs) = insert x (set xs)"
  by (induction xs) auto

lemma set_order_by: "set (order_by le xs) = set xs"
  by (induction xs) (simp_all add: order_by_def set_insert_by)

lemma length_insert_by: "length (insert_by le x xs) = Suc (length xs)"
  by (induction xs) simp_all

lemma length_order_by: "length (order_by le xs) = length xs"
  by (induction xs) (simp_all add: order_by_def length_insert_by)





















subsection \<open>UpdateBalance\<close>

lemma find_map_update:
  assumes "find P xs = Some x" and "\<And>y. P (f y) = P y"
  shows "find P (map (\<lambda>r. if P r then f r else r) xs) = Some (f x)"
  using assms by (induction xs) (auto split: if_splits)

lemma row_is_eq: "row_is id' entityID = (\<lambda>v. ID v = id' \<and> EntityID v = entityID)"
  by (simp add: fun_eq_iff row_is_def)

lemma GetByID_find:
  "repo_GetByID db id' entityID = Inr v \<longleftrightarrow> find (row_is id' entityID) (vendors db) = Some v"
  by (simp add: repo_GetByID_def row_is_eq split: option.splits)

text \<open>
  Claim C5. \<^verbatim>\<open>UpdateBalance\<close> hands the signed delta to the store in one
  \<^verbatim>\<open>UPDATE\<close> and checks nothing itself. For a stored vendor, a delta that would
  make the balance negative makes the call fail with the store's error, wrapped as
  \<^verbatim>\<open>failed to update vendor balance\<close> (the violated check is
  \<^verbatim>\<open>vendors_current_balance_check\<close> whenever the sum is a 64-bit number), and
  the store, the balance with it, is as before: nothing is clamped. A delta that
  keeps the balance within 0 and the 64-bit range is added.
\<close>

theorem C5_UpdateBalance_negative_rejected:
  assumes "repo_GetByID db vendorID entityID = Inr v"
  shows "(CurrentBalance v + delta < 0 \<longrightarrow>
            (\<exists>cause. repo_UpdateBalance db g vendorID entityID delta =
                        (db, Some (Wrap cause ErrCodeInternal ''failed to update vendor balance''))
                    \<and> (- (2 ^ 63) \<le> CurrentBalance v + delta \<longrightarrow>
                          cause = CheckViolation ''vendors_current_balance_check'')))
       \<and> (0 \<le> CurrentBalance v + delta \<and> CurrentBalance v + delta < 2 ^ 63 \<longrightarrow>
            (\<exists>db'. repo_UpdateBalance db g vendorID entityID delta = (db', None)
                  \<and> repo_GetByID db' vendorID entityID =
                      Inr (v\<lparr>CurrentBalance := CurrentBalance v + delta, UpdatedAt := gen_now g\<rparr>)))"
proof -
  from assms have old: "find (row_is vendorID entityID) (vendors db) = Some v"
    by (simp add: GetByID_find)
  have rejected: "\<exists>cause. repo_UpdateBalance db g vendorID entityID delta =
                        (db, Some (Wrap cause ErrCodeInternal ''failed to update vendor balance''))
                    \<and> (- (2 ^ 63) \<le> CurrentBalance v + delta \<longrightarrow>
                          cause = CheckViolation ''vendors_current_balance_check'')"
    if "CurrentBalance v + delta < 0"
    using that by (simp add: repo_UpdateBalance_def old)
  have applied: "\<exists>db'. repo_UpdateBalance db g vendorID entityID delta = (db', None)
                  \<and> repo_GetByID db' vendorID entityID =
                      Inr (v\<lparr>CurrentBalance := CurrentBalance v + delta, UpdatedAt := gen_now g\<rparr>)"
    if "0 \<le> CurrentBalance v + delta" "CurrentBalance v + delta < 2 ^ 63"
  proof -
    let ?f = "\<lambda>r. r\<lparr>CurrentBalance := CurrentBalance r + delta, UpdatedAt := gen_now g\<rparr>"
    let ?db' = "db\<lparr>vendors := map (\<lambda>r. if row_is vendorID entityID r then ?f r else r) (vendors db)\<rparr>"
    have "repo_UpdateBalance db g vendorID entityID delta = (?db', None)"
      using that by (simp add: repo_UpdateBalance_def old)
    moreover have "find (row_is vendorID entityID) (vendors ?db') = Some (?f v)"
      using find_map_update [OF old, of ?f] by (simp add: row_is_def)
    then have "repo_GetByID ?db' vendorID entityID = Inr (?f v)"
      by (simp only: GetByID_find)
    ultimately show ?thesis by blast
  qed
  from rejected applied show ?thesis by blast
qed

text \<open>The scenario of the specification: balance 50, delta -100.\<close>

lemma balance_GetByID: "repo_GetByID balance_store vendor_id_1 entity_a = Inr balance_vendor"
  by (simp add: repo_GetByID_def balance_store_def empty_store_def balance_vendor_def sample_vendor_def)

theorem C5_UpdateBalance_negative_rejected_witness:
  "repo_GetByID balance_store vendor_id_1 entity_a = Inr balance_vendor
   \<and> CurrentBalance balance_vendor = 50
   \<and> repo_UpdateBalance balance_store gen_2 vendor_id_1 entity_a (- 100) =
       (balance_store, Some (Wrap (CheckViolation ''vendors_current_balance_check'') ErrCodeInternal
                               ''failed to update vendor balance''))
   \<and> repo_GetByID (fst (repo_UpdateBalance balance_store gen_2 vendor_id_1 entity_a (- 100)))
        vendor_id_1 entity_a = Inr balance_vendor"
proof -
  have b: "CurrentBalance balance_vendor = 50"
    by (simp add: balance_vendor_def)
  from C5_UpdateBalance_negative_rejected [OF balance_GetByID, of "- 100" gen_2]
  have "repo_UpdateBalance balance_store gen_2 vendor_id_1 entity_a (- 100) =
       (balance_store, Some (Wrap (CheckViolation ''vendors_current_balance_check'') ErrCodeInternal
                               ''failed to update vendor balance''))"
    by (auto simp: b)
  with balance_GetByID b show ?thesis by simp
qed

subsection \<open>UpdateVendor and the balance\<close>

lemma repo_Update_success:
  assumes "repo_Update db g v = (db', Inr v')"
  shows "v' = v\<lparr>UpdatedAt := gen_now g\<rparr>"
    and "db' = db\<lparr>vendors := map (\<lambda>r. if row_is (ID v) (EntityID v) r
                                 then updated_row g v r else r) (vendors db)\<rparr>"
    and "\<exists>old. find (row_is (ID v) (EntityID v)) (vendors db) = Some old"
  using assms by (simp_all add: repo_Update_def split: option.splits)

lemma svc_UpdateVendor_success:
  assumes "svc_UpdateVendor U db g req = (db', Inr v)"
  shows "\<exists>old. repo_GetByID db (u_ID req) (u_EntityID req) = Inr old
           \<and> repo_Update db g
                (apply_update U req (ToLower U (u_VendorType req)) (ToLower U (u_Status req)) old)
              = (db', Inr v)"
  using assms by (simp add: svc_UpdateVendor_def split: sum.splits if_splits)

lemma find_Some_holds: "find P xs = Some x \<Longrightarrow> P x"
  by (induction xs) (auto split: if_splits)

lemma updated_row_frame:
  "CurrentBalance (updated_row g v r) = CurrentBalance r"
  "ID (updated_row g v r) = ID r"
  "EntityID (updated_row g v r) = EntityID r"
  by (simp_all add: updated_row_def)

lemma apply_update_frame:
  "CurrentBalance (apply_update U req t s v) = CurrentBalance v"
  "ID (apply_update U req t s v) = ID v"
  "EntityID (apply_update U req t s v) = EntityID v"
  by (simp_all add: apply_update_def)

lemma map_balance_update:
  "map CurrentBalance (map (\<lambda>r. if P r then updated_row g v r else r) xs) = map CurrentBalance xs"
  by (induction xs) (simp_all add: updated_row_frame)

text \<open>
  Claim C6. A successful \<^verbatim>\<open>UpdateVendor\<close> leaves the balance alone: the vendor it
  returns and the row the store holds afterwards have the balance the vendor had
  before, and so has every other row. The request has no field for the balance,
  and the \<^verbatim>\<open>SET\<close> list of the statement does not name the column.
\<close>

theorem C6_UpdateVendor_keeps_balance:
  assumes "svc_UpdateVendor U db g req = (db', Inr vendor)"
  shows "\<exists>old row. repo_GetByID db (u_ID req) (u_EntityID req) = Inr old
           \<and> CurrentBalance vendor = CurrentBalance old
           \<and> repo_GetByID db' (u_ID req) (u_EntityID req) = Inr row
           \<and> CurrentBalance row = CurrentBalance old
           \<and> map CurrentBalance (vendors db') = map CurrentBalance (vendors db)"
proof -
  from svc_UpdateVendor_success [OF assms] obtain old
    where old: "repo_GetByID db (u_ID req) (u_EntityID req) = Inr old"
      and upd: "repo_Update db g
                  (apply_update U req (ToLower U (u_VendorType req)) (ToLower U (u_Status req)) old)
                = (db', Inr vendor)"
    by blast
  let ?v = "apply_update U req (ToLower U (u_VendorType req)) (ToLower U (u_Status req)) old"
  from old have found_old: "find (row_is (u_ID req) (u_EntityID req)) (vendors db) = Some old"
    by (simp add: GetByID_find)
  from find_Some_holds [OF found_old] have key: "ID old = u_ID req" "EntityID old = u_EntityID req"
    by (simp_all add: row_is_def)
  then have key': "ID ?v = u_ID req" "EntityID ?v = u_EntityID req"
    by (simp_all add: apply_update_frame)
  have returned: "CurrentBalance vendor = CurrentBalance old"
    using repo_Update_success(1) [OF upd] by (simp add: apply_update_frame)
  have store: "vendors db' = map (\<lambda>r. if row_is (u_ID req) (u_EntityID req) r
                                     then updated_row g ?v r else r) (vendors db)"
    using repo_Update_success(2) [OF upd] by (simp add: key')
  have "find (row_is (u_ID req) (u_EntityID req)) (vendors db') = Some (updated_row g ?v old)"
    unfolding store by (rule find_map_update [OF found_old]) (simp add: row_is_def updated_row_frame)
  then have stored: "repo_GetByID db' (u_ID req) (u_EntityID req) = Inr (updated_row g ?v old)"
    by (simp only: GetByID_find)
  have others: "map CurrentBalance (vendors db') = map CurrentBalance (vendors db)"
    unfolding store by (rule map_balance_update)
  from old returned stored others updated_row_frame(1) show ?thesis by blast
qed

text \<open>An update of the sample vendor that changes name, status, terms and credit limit.\<close>

lemma ToLower_samples:
  "ToLower U ''supplier'' = ''supplier''" "ToLower U ''suspended'' = ''suspended''"
  "ToUpper U ''V001'' = ''V001''" "ToUpper U ''us'' = ''US''" "ToUpper U ''usd'' = ''USD''"
  by (simp_all add: string_eval)

lemma update_req_1_fields:
  "u_ID update_req_1 = vendor_id_1" "u_EntityID update_req_1 = entity_a"
  "u_VendorCode update_req_1 = ''V001''" "u_VendorType update_req_1 = ''supplier''"
  "u_Status update_req_1 = ''suspended''" "u_CreditLimit update_req_1 = Some 9000000"
  by (simp_all add: update_req_1_def)

lemma apply_update_1:
  "apply_update U update_req_1 ''supplier'' ''suspended'' sample_vendor
     = updated_vendor\<lparr>UpdatedAt := UpdatedAt sample_vendor\<rparr>"
  by (simp add: apply_update_def update_req_1_def updated_vendor_def sample_vendor_def
        ToLower_samples)

lemma sample_update:
  "svc_UpdateVendor U sample_store gen_2 update_req_1 =
     (sample_store\<lparr>vendors := [updated_vendor]\<rparr>, Inr updated_vendor)"
proof -
  let ?v = "updated_vendor\<lparr>UpdatedAt := UpdatedAt sample_vendor\<rparr>"
  have fields: "ID ?v = vendor_id_1" "EntityID ?v = entity_a" "VendorCode sample_vendor = ''V001''"
    "ID sample_vendor = vendor_id_1" "EntityID sample_vendor = entity_a"
    by (simp_all add: updated_vendor_def sample_vendor_def)
  have casts: "vendor_casts ?v = None"
    by (simp add: enum_eval updated_vendor_def sample_vendor_def)
  have row: "updated_row gen_2 ?v sample_vendor = updated_vendor"
    by (simp add: updated_row_def updated_vendor_def sample_vendor_def)
  have ok: "vendor_constraints [] updated_vendor = None"
    by (simp add: vendor_constraints_def updated_vendor_def sample_vendor_def)
  have "repo_Update sample_store gen_2 ?v =
          (sample_store\<lparr>vendors := [updated_vendor]\<rparr>, Inr updated_vendor)"
    by (simp add: repo_Update_def casts fields row_is_def sample_store_def empty_store_def row ok)
       (simp add: updated_vendor_def)
  then show ?thesis
    by (simp add: svc_UpdateVendor_def sample_GetByID update_req_1_fields fields
          ToLower_samples apply_update_1)
qed

theorem C6_UpdateVendor_keeps_balance_witness:
  "svc_UpdateVendor unmapped sample_store gen_2 update_req_1 =
     (sample_store\<lparr>vendors := [updated_vendor]\<rparr>, Inr updated_vendor)
   \<and> CurrentBalance sample_vendor = 5000000
   \<and> CurrentBalance updated_vendor = 5000000
   \<and> map CurrentBalance (vendors (sample_store\<lparr>vendors := [updated_vendor]\<rparr>)) = [5000000]"
proof -
  have b: "CurrentBalance sample_vendor = 5000000"
    by (simp add: sample_vendor_def)
  from C6_UpdateVendor_keeps_balance [OF sample_update] obtain old row
    where "repo_GetByID sample_store (u_ID update_req_1) (u_EntityID update_req_1) = Inr old"
      and "CurrentBalance updated_vendor = CurrentBalance old"
      and "map CurrentBalance (vendors (sample_store\<lparr>vendors := [updated_vendor]\<rparr>))
             = map CurrentBalance (vendors sample_store)"
    by blast
  then show ?thesis
    using sample_update b
    by (simp add: update_req_1_fields sample_GetByID sample_store_def empty_store_def)
qed

subsection \<open>The entity check of the gRPC handlers\<close>

text \<open>
  The handlers \<^verbatim>\<open>CreateVendor\<close>, \<^verbatim>\<open>UpdateVendor\<close>, \<^verbatim>\<open>ActivateVendor\<close> and
  \<^verbatim>\<open>DeactivateVendor\<close> compare the entity of the request with the caller's and
  answer \<^verbatim>\<open>PermissionDenied\<close> without touching the store when they differ.
\<close>

lemma guarded_handlers_reject_mismatch:
  assumes "entityId \<noteq> uc_EntityID userCtx"
  shows "pc_EntityId creq = entityId \<Longrightarrow>
           grpc_CreateVendor U db g (Some userCtx) creq =
             (db, Inl (StatusError PermissionDenied (Literal ''access denied: entity mismatch'')))"
    and "pu_EntityId ureq = entityId \<Longrightarrow>
           grpc_UpdateVendor U db g (Some userCtx) ureq =
             (db, Inl (StatusError PermissionDenied (Literal ''access denied: entity mismatch'')))"
    and "grpc_ActivateVendor db g (Some userCtx) id' entityId =
           (db, Inl (StatusError PermissionDenied (Literal ''access denied: entity mismatch'')))"
    and "grpc_DeactivateVendor db g (Some userCtx) id' entityId =
           (db, Inl (StatusError PermissionDenied (Literal ''access denied: entity mismatch'')))"
  using assms
  by (simp_all add: grpc_CreateVendor_def grpc_UpdateVendor_def grpc_ActivateVendor_def
        grpc_DeactivateVendor_def)

lemma sample_vendor_key: "ID sample_vendor = vendor_id_1" "EntityID sample_vendor = entity_a"
  by (simp_all add: sample_vendor_def)

text \<open>
  Claim C7 asks the same of every mutating call. \<^verbatim>\<open>DeleteVendor\<close> does not make
  the comparison: a caller authenticated for entity B who names entity A in the
  request deletes the vendor of entity A and is told of success.
\<close>

theorem C7_DeleteVendor_ignores_caller_entity:
  "uc_EntityID caller_b \<noteq> entity_a
   \<and> repo_GetByID sample_store vendor_id_1 entity_a = Inr sample_vendor
   \<and> grpc_DeleteVendor sample_store (Some caller_b) vendor_id_1 entity_a =
       (empty_store, Inr \<lparr>rsp_Success = True, rsp_Message = ''Vendor deleted successfully''\<rparr>)
   \<and> vendors empty_store = []"
proof -
  have "grpc_DeleteVendor sample_store (Some caller_b) vendor_id_1 entity_a =
       (empty_store, Inr \<lparr>rsp_Success = True, rsp_Message = ''Vendor deleted successfully''\<rparr>)"
    by (simp add: grpc_DeleteVendor_def svc_DeleteVendor_def repo_Delete_def row_is_def
          sample_store_def empty_store_def sample_vendor_key)
  moreover have "uc_EntityID caller_b \<noteq> entity_a" "vendors empty_store = []"
    by (simp_all add: caller_b_def ids_differ empty_store_def)
  ultimately show ?thesis
    using sample_GetByID by simp
qed

text \<open>\<^verbatim>\<open>UpdateBalance\<close> does not make the comparison either.\<close>

lemma grpc_UpdateBalance_ignores_caller_entity:
  "fst (grpc_UpdateBalance sample_store gen_2 (Some caller_b) vendor_id_1 entity_a 100)
     = sample_store\<lparr>vendors := [sample_vendor\<lparr>CurrentBalance := 5000100, UpdatedAt := gen_now gen_2\<rparr>]\<rparr>"
  by (simp add: grpc_UpdateBalance_def svc_UpdateBalance_def repo_UpdateBalance_def row_is_def
        sample_store_def empty_store_def sample_vendor_key split: prod.splits)
     (simp add: sample_vendor_def)

subsection \<open>GetVendorContacts\<close>

lemma http_GetVendorContacts_eq:
  "http_GetVendorContacts db r =
     (if rq_Method r \<noteq> ''GET'' then (405, ErrorBody (Literal ''Method not allowed''))
      else if query_get r ''vendor_id'' = [] then (400, ErrorBody (Literal ''Vendor ID is required''))
      else (200, ContactsBody (order_by (contact_le (collate_le db))
              (filter (\<lambda>c. ct_VendorID c = query_get r ''vendor_id'') (vendor_contacts db)))))"
  by (simp add: http_GetVendorContacts_def svc_GetVendorContacts_def repo_GetContacts_def
        http_Error_def StatusMethodNotAllowed_def StatusBadRequest_def StatusOK_def)

text \<open>
  Claim C10. \<^verbatim>\<open>GetVendorContacts\<close> reads the method and the parameter
  \<^verbatim>\<open>vendor_id\<close> and nothing else of the request, and only the table of contacts
  of the store: two requests that agree on these get the same answer, whatever
  entity they name, whatever their headers, and whichever entity owns the vendor.
  A \<^verbatim>\<open>GET\<close> with a vendor id returns exactly the contacts stored for that id.
\<close>

theorem C10_contacts_not_entity_scoped:
  "(rq_Method r1 = rq_Method r2 \<and> query_get r1 ''vendor_id'' = query_get r2 ''vendor_id''
      \<and> vendor_contacts db1 = vendor_contacts db2 \<and> collate_le db1 = collate_le db2
      \<longrightarrow> http_GetVendorContacts db1 r1 = http_GetVendorContacts db2 r2)
   \<and> (rq_Method r = ''GET'' \<and> query_get r ''vendor_id'' = vendorID \<and> vendorID \<noteq> []
      \<longrightarrow> (\<exists>contacts. http_GetVendorContacts db r = (200, ContactsBody contacts)
              \<and> set contacts = {c \<in> set (vendor_contacts db). ct_VendorID c = vendorID}))"
proof (intro conjI impI)
  assume same: "rq_Method r1 = rq_Method r2 \<and> query_get r1 ''vendor_id'' = query_get r2 ''vendor_id''
      \<and> vendor_contacts db1 = vendor_contacts db2 \<and> collate_le db1 = collate_le db2"
  then show "http_GetVendorContacts db1 r1 = http_GetVendorContacts db2 r2"
    by (simp add: http_GetVendorContacts_eq)
next
  assume get: "rq_Method r = ''GET'' \<and> query_get r ''vendor_id'' = vendorID \<and> vendorID \<noteq> []"
  let ?found = "order_by (contact_le (collate_le db))
                  (filter (\<lambda>c. ct_VendorID c = vendorID) (vendor_contacts db))"
  from get have "http_GetVendorContacts db r = (200, ContactsBody ?found)"
    by (simp add: http_GetVendorContacts_eq)
  moreover have "set ?found = {c \<in> set (vendor_contacts db). ct_VendorID c = vendorID}"
    by (simp add: set_order_by)
  ultimately show "\<exists>contacts. http_GetVendorContacts db r = (200, ContactsBody contacts)
              \<and> set contacts = {c \<in> set (vendor_contacts db). ct_VendorID c = vendorID}"
    by blast
qed

lemma contacts_requests:
  "rq_Method contacts_request_a = ''GET''" "rq_Method contacts_request_b = ''GET''"
  "query_get contacts_request_a ''vendor_id'' = vendor_id_1"
  "query_get contacts_request_b ''vendor_id'' = vendor_id_1"
  "query_get contacts_request_a ''entity_id'' = entity_a"
  "query_get contacts_request_b ''entity_id'' = entity_b"
  by (simp_all add: contacts_request_a_def contacts_request_b_def query_get_def)

theorem C10_contacts_not_entity_scoped_witness:
  "query_get contacts_request_a ''entity_id'' = entity_a
   \<and> query_get contacts_request_b ''entity_id'' = entity_b
   \<and> EntityID sample_vendor = entity_a \<and> ct_VendorID sample_contact = ID sample_vendor
   \<and> http_GetVendorContacts contact_store contacts_request_a
       = http_GetVendorContacts contact_store contacts_request_b
   \<and> http_GetVendorContacts contact_store contacts_request_b = (200, ContactsBody [sample_contact])"
proof -
  have same: "rq_Method contacts_request_a = rq_Method contacts_request_b
      \<and> query_get contacts_request_a ''vendor_id'' = query_get contacts_request_b ''vendor_id''
      \<and> vendor_contacts contact_store = vendor_contacts contact_store
      \<and> collate_le contact_store = collate_le contact_store"
    by (simp add: contacts_requests)
  have get: "rq_Method contacts_request_b = ''GET''
      \<and> query_get contacts_request_b ''vendor_id'' = vendor_id_1 \<and> vendor_id_1 \<noteq> []"
    by (simp add: contacts_requests) (simp add: vendor_id_1_def)
  have c: "ct_VendorID sample_contact = vendor_id_1" "vendor_contacts contact_store = [sample_contact]"
    by (simp_all add: sample_contact_def contact_store_def)
  from C10_contacts_not_entity_scoped [of contacts_request_a contacts_request_b contact_store contact_store]
    same
  have eq: "http_GetVendorContacts contact_store contacts_request_a
       = http_GetVendorContacts contact_store contacts_request_b"
    by blast
  from C10_contacts_not_entity_scoped [of _ _ _ _ contacts_request_b vendor_id_1 contact_store] get
  obtain contacts where
    "http_GetVendorContacts contact_store contacts_request_b = (200, ContactsBody contacts)"
    by blast
  moreover have "http_GetVendorContacts contact_store contacts_request_b
      = (200, ContactsBody [sample_contact])"
    by (simp add: http_GetVendorContacts_eq contacts_requests c order_by_def)
       (simp add: vendor_id_1_def)
  ultimately show ?thesis
    using eq by (simp add: contacts_requests sample_vendor_key c)
qed

subsection \<open>Error statuses of the two adapters\<close>

lemmas status_codes =
  StatusOK_def StatusCreated_def StatusNoContent_def StatusBadRequest_def StatusNotFound_def
  StatusMethodNotAllowed_def StatusConflict_def StatusInternalServerError_def http_Error_def

text \<open>
  Claim C8, amended. Neither adapter looks at the kind of a domain error. Every
  gRPC handler answers an error of the service with the status \<^verbatim>\<open>Internal\<close> and
  the text of the error (the handlers that check the caller do so for a caller
  they let through). Every REST handler answers an error of the service with one
  fixed status, 404 in \<^verbatim>\<open>GetVendor\<close> and \<^verbatim>\<open>GetVendorByCode\<close>, 500 in
  \<^verbatim>\<open>CreateVendor\<close>, \<^verbatim>\<open>UpdateVendor\<close>, \<^verbatim>\<open>DeleteVendor\<close>, \<^verbatim>\<open>ValidateVendor\<close>,
  \<^verbatim>\<open>ListVendors\<close>, \<^verbatim>\<open>AddVendorContact\<close> and \<^verbatim>\<open>UpdateBalance\<close>, with the text of
  the error as body.
\<close>

theorem C8_error_statuses:
  "toGRPCError err = StatusError Internal (ErrorText err)
   \<and> (rq_Method rc = ''POST'' \<and> rq_Body rc = Some creq
        \<and> svc_CreateVendor U db g creq = (db', Inl err)
      \<longrightarrow> http_CreateVendor U db g rc = (db', (500, ErrorBody (ErrorText err))))
   \<and> ((rq_Method ru = ''PUT'' \<or> rq_Method ru = ''PATCH'') \<and> rq_Body ru = Some ureq
        \<and> svc_UpdateVendor U db g ureq = (db', Inl err)
      \<longrightarrow> http_UpdateVendor U db g ru = (db', (500, ErrorBody (ErrorText err))))
   \<and> (rq_Method rd = ''DELETE'' \<and> query_get rd ''id'' \<noteq> [] \<and> query_get rd ''entity_id'' \<noteq> []
        \<and> svc_DeleteVendor db (query_get rd ''id'') (query_get rd ''entity_id'') = (db', Some err)
      \<longrightarrow> http_DeleteVendor db rd = (db', (500, ErrorBody (ErrorText err))))
   \<and> (rq_Method rg = ''GET'' \<and> query_get rg ''id'' \<noteq> [] \<and> query_get rg ''entity_id'' \<noteq> []
        \<and> svc_GetVendor db (query_get rg ''id'') (query_get rg ''entity_id'') = Inl err
      \<longrightarrow> http_GetVendor db rg = (404, ErrorBody (ErrorText err)))
   \<and> (rq_Method rb = ''GET'' \<and> query_get rb ''vendor_code'' \<noteq> [] \<and> query_get rb ''entity_id'' \<noteq> []
        \<and> svc_GetVendorByCode db (query_get rb ''vendor_code'') (query_get rb ''entity_id'') = Inl err
      \<longrightarrow> http_GetVendorByCode db rb = (404, ErrorBody (ErrorText err)))
   \<and> (rq_Method rv = ''GET'' \<and> query_get rv ''id'' \<noteq> [] \<and> query_get rv ''entity_id'' \<noteq> []
        \<and> svc_ValidateVendor db (query_get rv ''id'') (query_get rv ''entity_id'') = (valid, msg, Some err)
      \<longrightarrow> http_ValidateVendor db rv = (500, ErrorBody (ErrorText err)))
   \<and> (rq_Method rl = ''GET'' \<and> query_get rl ''entity_id'' \<noteq> []
        \<and> svc_ListVendors db (query_get rl ''entity_id'') (optional_param rl ''status'')
              (optional_param rl ''vendor_type'') (query_get rl ''active_only'' = ''true'')
              (page_param rl) (page_size_param rl) = Inl err
      \<longrightarrow> http_ListVendors db rl = (500, ErrorBody (ErrorText err)))
   \<and> (rq_Method ra = ''POST'' \<and> rq_Body ra = Some areq
        \<and> svc_AddVendorContact U db g areq = (db', Inl err)
      \<longrightarrow> http_AddVendorContact U db g ra = (db', (500, ErrorBody (ErrorText err))))
   \<and> (rq_Method rx = ''POST'' \<and> rq_Body rx = Some breq
        \<and> b_VendorID breq \<noteq> [] \<and> b_EntityID breq \<noteq> []
        \<and> svc_UpdateBalance db g (b_VendorID breq) (b_EntityID breq) (b_Amount breq) = (db', Some err)
      \<longrightarrow> http_UpdateBalance db g rx = (db', (500, ErrorBody (ErrorText err))))
   \<and> (ctx = Some userCtx \<and> pc_EntityId pcreq = uc_EntityID userCtx
        \<and> svc_CreateVendor U db g (create_svcReq userCtx pcreq) = (db', Inl err)
      \<longrightarrow> grpc_CreateVendor U db g ctx pcreq = (db', Inl (StatusError Internal (ErrorText err))))
   \<and> (ctx = Some userCtx \<and> pu_EntityId pureq = uc_EntityID userCtx
        \<and> svc_UpdateVendor U db g (update_svcReq userCtx pureq) = (db', Inl err)
      \<longrightarrow> grpc_UpdateVendor U db g ctx pureq = (db', Inl (StatusError Internal (ErrorText err))))
   \<and> (svc_GetVendor db vendorId entityId = Inl err
      \<longrightarrow> grpc_GetVendor db ctx vendorId entityId = Inl (StatusError Internal (ErrorText err)))
   \<and> (svc_DeleteVendor db vendorId entityId = (db', Some err)
      \<longrightarrow> grpc_DeleteVendor db ctx vendorId entityId =
            (db', Inl (StatusError Internal (ErrorText err))))
   \<and> (svc_ListVendors db entityId (if status \<noteq> [] then Some status else None)
              (if vendorType \<noteq> [] then Some vendorType else None) activeOnly
              (if page \<le> 0 then 1 else page) (if pageSize \<le> 0 then 20 else pageSize) = Inl err
      \<longrightarrow> grpc_ListVendors db ctx entityId status vendorType activeOnly page pageSize =
            Inl (StatusError Internal (ErrorText err)))
   \<and> (ctx = Some userCtx \<and> entityId = uc_EntityID userCtx
        \<and> svc_ActivateVendor db g vendorId entityId (uc_UserID userCtx) = (db', Some err)
      \<longrightarrow> grpc_ActivateVendor db g ctx vendorId entityId =
            (db', Inl (StatusError Internal (ErrorText err))))
   \<and> (ctx = Some userCtx \<and> entityId = uc_EntityID userCtx
        \<and> svc_DeactivateVendor db g vendorId entityId (uc_UserID userCtx) = (db', Some err)
      \<longrightarrow> grpc_DeactivateVendor db g ctx vendorId entityId =
            (db', Inl (StatusError Internal (ErrorText err))))
   \<and> (svc_ValidateVendor db vendorId entityId = (valid, msg, Some err)
      \<longrightarrow> grpc_ValidateVendor db ctx vendorId entityId =
            Inl (StatusError Internal (ErrorText err)))
   \<and> (svc_UpdateBalance db g vendorId entityId amount = (db', Some err)
      \<longrightarrow> grpc_UpdateBalance db g ctx vendorId entityId amount =
            (db', Inl (StatusError Internal (ErrorText err))))"
proof -
  have grpc: "toGRPCError err = StatusError Internal (ErrorText err)"
    by (simp add: toGRPCError_def)
  have create: "rq_Method rc = ''POST'' \<and> rq_Body rc = Some creq
        \<and> svc_CreateVendor U db g creq = (db', Inl err)
      \<longrightarrow> http_CreateVendor U db g rc = (db', (500, ErrorBody (ErrorText err)))"
    by (simp add: http_CreateVendor_def status_codes)
  have update: "(rq_Method ru = ''PUT'' \<or> rq_Method ru = ''PATCH'') \<and> rq_Body ru = Some ureq
        \<and> svc_UpdateVendor U db g ureq = (db', Inl err)
      \<longrightarrow> http_UpdateVendor U db g ru = (db', (500, ErrorBody (ErrorText err)))"
    by (auto simp add: http_UpdateVendor_def status_codes)
  have delete: "rq_Method rd = ''DELETE'' \<and> query_get rd ''id'' \<noteq> [] \<and> query_get rd ''entity_id'' \<noteq> []
        \<and> svc_DeleteVendor db (query_get rd ''id'') (query_get rd ''entity_id'') = (db', Some err)
      \<longrightarrow> http_DeleteVendor db rd = (db', (500, ErrorBody (ErrorText err)))"
    by (simp add: http_DeleteVendor_def status_codes)
  have get: "rq_Method rg = ''GET'' \<and> query_get rg ''id'' \<noteq> [] \<and> query_get rg ''entity_id'' \<noteq> []
        \<and> svc_GetVendor db (query_get rg ''id'') (query_get rg ''entity_id'') = Inl err
      \<longrightarrow> http_GetVendor db rg = (404, ErrorBody (ErrorText err))"
    by (simp add: http_GetVendor_def status_codes)
  have by_code: "rq_Method rb = ''GET'' \<and> query_get rb ''vendor_code'' \<noteq> [] \<and> query_get rb ''entity_id'' \<noteq> []
        \<and> svc_GetVendorByCode db (query_get rb ''vendor_code'') (query_get rb ''entity_id'') = Inl err
      \<longrightarrow> http_GetVendorByCode db rb = (404, ErrorBody (ErrorText err))"
    by (simp add: http_GetVendorByCode_def status_codes)
  have validate: "rq_Method rv = ''GET'' \<and> query_get rv ''id'' \<noteq> [] \<and> query_get rv ''entity_id'' \<noteq> []
        \<and> svc_ValidateVendor db (query_get rv ''id'') (query_get rv ''entity_id'') = (valid, msg, Some err)
      \<longrightarrow> http_ValidateVendor db rv = (500, ErrorBody (ErrorText err))"
    by (simp add: http_ValidateVendor_def status_codes)
  have list: "rq_Method rl = ''GET'' \<and> query_get rl ''entity_id'' \<noteq> []
        \<and> svc_ListVendors db (query_get rl ''entity_id'') (optional_param rl ''status'')
              (optional_param rl ''vendor_type'') (query_get rl ''active_only'' = ''true'')
              (page_param rl) (page_size_param rl) = Inl err
      \<longrightarrow> http_ListVendors db rl = (500, ErrorBody (ErrorText err))"
    by (simp add: http_ListVendors_def status_codes)
  have contact: "rq_Method ra = ''POST'' \<and> rq_Body ra = Some areq
        \<and> svc_AddVendorContact U db g areq = (db', Inl err)
      \<longrightarrow> http_AddVendorContact U db g ra = (db', (500, ErrorBody (ErrorText err)))"
    by (simp add: http_AddVendorContact_def status_codes)
  have balance: "rq_Method rx = ''POST'' \<and> rq_Body rx = Some breq
        \<and> b_VendorID breq \<noteq> [] \<and> b_EntityID breq \<noteq> []
        \<and> svc_UpdateBalance db g (b_VendorID breq) (b_EntityID breq) (b_Amount breq) = (db', Some err)
      \<longrightarrow> http_UpdateBalance db g rx = (db', (500, ErrorBody (ErrorText err)))"
    by (simp add: http_UpdateBalance_def status_codes)
  have rpc_create: "ctx = Some userCtx \<and> pc_EntityId pcreq = uc_EntityID userCtx
        \<and> svc_CreateVendor U db g (create_svcReq userCtx pcreq) = (db', Inl err)
      \<longrightarrow> grpc_CreateVendor U db g ctx pcreq = (db', Inl (StatusError Internal (ErrorText err)))"
    by (simp add: grpc_CreateVendor_def toGRPCError_def)
  have rpc_update: "ctx = Some userCtx \<and> pu_EntityId pureq = uc_EntityID userCtx
        \<and> svc_UpdateVendor U db g (update_svcReq userCtx pureq) = (db', Inl err)
      \<longrightarrow> grpc_UpdateVendor U db g ctx pureq = (db', Inl (StatusError Internal (ErrorText err)))"
    by (simp add: grpc_UpdateVendor_def toGRPCError_def)
  have rpc_get: "svc_GetVendor db vendorId entityId = Inl err
      \<longrightarrow> grpc_GetVendor db ctx vendorId entityId = Inl (StatusError Internal (ErrorText err))"
    by (simp add: grpc_GetVendor_def toGRPCError_def)
  have rpc_delete: "svc_DeleteVendor db vendorId entityId = (db', Some err)
      \<longrightarrow> grpc_DeleteVendor db ctx vendorId entityId =
            (db', Inl (StatusError Internal (ErrorText err)))"
    by (simp add: grpc_DeleteVendor_def toGRPCError_def)
  have rpc_list: "svc_ListVendors db entityId (if status \<noteq> [] then Some status else None)
              (if vendorType \<noteq> [] then Some vendorType else None) activeOnly
              (if page \<le> 0 then 1 else page) (if pageSize \<le> 0 then 20 else pageSize) = Inl err
      \<longrightarrow> grpc_ListVendors db ctx entityId status vendorType activeOnly page pageSize =
            Inl (StatusError Internal (ErrorText err))"
    by (simp add: grpc_ListVendors_def toGRPCError_def Let_def)
  have rpc_activate: "ctx = Some userCtx \<and> entityId = uc_EntityID userCtx
        \<and> svc_ActivateVendor db g vendorId entityId (uc_UserID userCtx) = (db', Some err)
      \<longrightarrow> grpc_ActivateVendor db g ctx vendorId entityId =
            (db', Inl (StatusError Internal (ErrorText err)))"
    by (clarsimp simp add: grpc_ActivateVendor_def toGRPCError_def)
  have rpc_deactivate: "ctx = Some userCtx \<and> entityId = uc_EntityID userCtx
        \<and> svc_DeactivateVendor db g vendorId entityId (uc_UserID userCtx) = (db', Some err)
      \<longrightarrow> grpc_DeactivateVendor db g ctx vendorId entityId =
            (db', Inl (StatusError Internal (ErrorText err)))"
    by (clarsimp simp add: grpc_DeactivateVendor_def toGRPCError_def)
  have rpc_validate: "svc_ValidateVendor db vendorId entityId = (valid, msg, Some err)
      \<longrightarrow> grpc_ValidateVendor db ctx vendorId entityId =
            Inl (StatusError Internal (ErrorText err))"
    by (simp add: grpc_ValidateVendor_def toGRPCError_def)
  have rpc_balance: "svc_UpdateBalance db g vendorId entityId amount = (db', Some err)
      \<longrightarrow> grpc_UpdateBalance db g ctx vendorId entityId amount =
            (db', Inl (StatusError Internal (ErrorText err)))"
    by (simp add: grpc_UpdateBalance_def toGRPCError_def)
  show ?thesis
    by (intro conjI grpc create update delete get by_code validate list contact balance
          rpc_create rpc_update rpc_get rpc_delete rpc_list rpc_activate rpc_deactivate
          rpc_validate rpc_balance)
qed

text \<open>A second vendor with the code \<^verbatim>\<open>V001\<close>, sent over REST.\<close>

lemma dup_create_2:
  "svc_CreateVendor U store_1 gen_2 create_req_2 = (store_1, Inl (AlreadyExists ''vendor'' ''V001''))"
proof -
  have "list_ex (\<lambda>r. VendorCode r = c_VendorCode create_req_2 \<and> EntityID r = c_EntityID create_req_2)
          (vendors store_1)"
    by (simp add: store_1_def empty_store_def created_1_fields create_req_2_def create_req_1_def)
  from precheck_AlreadyExists [OF GetByCode_found [OF this], where g = gen_2] show ?thesis
    by (simp add: create_req_2_def)
qed

text \<open>
  Claim C8 as stated fails for the REST adapter: \<^verbatim>\<open>AlreadyExists\<close> is answered
  with 500, where the mapping of the specification has 409.
\<close>

theorem C8_REST_status_counterexample:
  "svc_CreateVendor unmapped store_1 gen_2 create_req_2 = (store_1, Inl (AlreadyExists ''vendor'' ''V001''))
   \<and> http_CreateVendor unmapped store_1 gen_2 post_create_2 =
       (store_1, (500, ErrorBody (ErrorText (AlreadyExists ''vendor'' ''V001''))))
   \<and> spec_wire_status (code_of (AlreadyExists ''vendor'' ''V001'')) = 409"
  by (simp add: http_CreateVendor_def post_create_2_def dup_create_2 status_codes)

text \<open>One failing request for each handler of either adapter.\<close>

lemma vendor_query_params:
  "rq_Method (vendor_query m) = m"
  "query_get (vendor_query m) ''id'' = vendor_id_1"
  "query_get (vendor_query m) ''entity_id'' = entity_a"
  "query_get (vendor_query m) ''vendor_code'' = ''V001''"
  "optional_param (vendor_query m) ''status'' = Some ''bogus''"
  "optional_param (vendor_query m) ''vendor_type'' = None"
  "(query_get (vendor_query m) ''active_only'' = ''true'') = False"
  "page_param (vendor_query m) = 1"
  "page_size_param (vendor_query m) = 50"
  by (simp_all add: vendor_query_def query_get_def optional_param_def page_param_def
        page_size_param_def Atoi_def)

lemma ids_not_empty: "vendor_id_1 \<noteq> []" "entity_a \<noteq> []"
  by (simp_all add: vendor_id_1_def entity_a_def)

lemma empty_store_misses:
  "repo_GetByID empty_store vendor_id_1 entity_a = Inl (NotFound ''vendor'' vendor_id_1)"
  "repo_GetByCode empty_store ''V001'' entity_a = Inl (NotFound ''vendor'' ''V001'')"
  by (simp_all add: repo_GetByID_def repo_GetByCode_def empty_store_def)

lemma empty_store_errors:
  "svc_UpdateVendor U empty_store gen_2 update_req_1 =
     (empty_store, Inl (NotFound ''vendor'' vendor_id_1))"
  "svc_DeleteVendor empty_store vendor_id_1 entity_a =
     (empty_store, Some (NotFound ''vendor'' vendor_id_1))"
  "svc_GetVendor empty_store vendor_id_1 entity_a = Inl (NotFound ''vendor'' vendor_id_1)"
  "svc_GetVendorByCode empty_store ''V001'' entity_a = Inl (NotFound ''vendor'' ''V001'')"
  "svc_ValidateVendor empty_store vendor_id_1 entity_a =
     (False, ''vendor not found'', Some (NotFound ''vendor'' vendor_id_1))"
  "svc_UpdateBalance empty_store gen_2 vendor_id_1 entity_a 100 =
     (empty_store, Some (NotFound ''vendor'' vendor_id_1))"
  by (simp_all add: svc_UpdateVendor_def svc_DeleteVendor_def svc_GetVendor_def
        svc_GetVendorByCode_def svc_ValidateVendor_def svc_UpdateBalance_def
        repo_ValidateVendor_def empty_store_misses update_req_1_fields)
     (simp_all add: repo_Delete_def repo_UpdateBalance_def empty_store_def)

lemma bogus_status_error:
  "svc_ListVendors empty_store entity_a (Some ''bogus'') None False page pageSize =
     Inl (Wrap (InvalidEnumValue ''vendor_status'' ''bogus'') ErrCodeInternal
            ''failed to count vendors'')"
  by (simp add: svc_ListVendors_def repo_List_def list_conditions_def enum_cast_def
        vendor_status_enum_def)

lemma boss_contact_error:
  "svc_AddVendorContact U empty_store gen_2 contact_req_1 =
     (empty_store, Inl (InvalidInput ''contact_type'' ''invalid contact type''))"
  by (simp add: svc_AddVendorContact_def contact_req_1_def string_eval)

lemma pb_create_2_fields:
  "pc_EntityId pb_create_2 = entity_a"
  "create_svcReq caller_a pb_create_2 = create_req_2\<lparr>c_CreditLimit := None\<rparr>"
  by (simp_all add: pb_create_2_def pb_create_1_def create_svcReq_def create_req_2_def
        create_req_1_def caller_a_def stringPtr_def int64Ptr_def)

lemma rpc_dup_create:
  "svc_CreateVendor U store_1 gen_2 (create_req_2\<lparr>c_CreditLimit := None\<rparr>) =
     (store_1, Inl (AlreadyExists ''vendor'' ''V001''))"
proof -
  have "list_ex (\<lambda>r. VendorCode r = c_VendorCode (create_req_2\<lparr>c_CreditLimit := None\<rparr>)
                     \<and> EntityID r = c_EntityID (create_req_2\<lparr>c_CreditLimit := None\<rparr>))
          (vendors store_1)"
    by (simp add: store_1_def empty_store_def created_1_fields create_req_2_def create_req_1_def)
  from precheck_AlreadyExists [OF GetByCode_found [OF this], where g = gen_2] show ?thesis
    by (simp add: create_req_2_def)
qed

lemma rpc_empty_store_errors:
  "svc_UpdateVendor U empty_store gen_2 (update_svcReq caller_a pb_update_1) =
     (empty_store, Inl (NotFound ''vendor'' vendor_id_1))"
  "svc_ActivateVendor empty_store gen_2 vendor_id_1 entity_a user_1 =
     (empty_store, Some (NotFound ''vendor'' vendor_id_1))"
  "svc_DeactivateVendor empty_store gen_2 vendor_id_1 entity_a user_1 =
     (empty_store, Some (NotFound ''vendor'' vendor_id_1))"
  by (simp_all add: svc_UpdateVendor_def svc_ActivateVendor_def svc_DeactivateVendor_def
        empty_store_misses update_svcReq_def pb_update_1_def)

theorem C8_error_statuses_witness:
  "http_CreateVendor unmapped store_1 gen_2 post_create_2 =
     (store_1, (500, ErrorBody (ErrorText (AlreadyExists ''vendor'' ''V001''))))
   \<and> http_UpdateVendor unmapped empty_store gen_2 put_update_1 =
       (empty_store, (500, ErrorBody (ErrorText (NotFound ''vendor'' vendor_id_1))))
   \<and> http_DeleteVendor empty_store (vendor_query ''DELETE'') =
       (empty_store, (500, ErrorBody (ErrorText (NotFound ''vendor'' vendor_id_1))))
   \<and> http_GetVendor empty_store (vendor_query ''GET'') =
       (404, ErrorBody (ErrorText (NotFound ''vendor'' vendor_id_1)))
   \<and> http_GetVendorByCode empty_store (vendor_query ''GET'') =
       (404, ErrorBody (ErrorText (NotFound ''vendor'' ''V001'')))
   \<and> http_ValidateVendor empty_store (vendor_query ''GET'') =
       (500, ErrorBody (ErrorText (NotFound ''vendor'' vendor_id_1)))
   \<and> http_ListVendors empty_store (vendor_query ''GET'') =
       (500, ErrorBody (ErrorText (Wrap (InvalidEnumValue ''vendor_status'' ''bogus'')
                                     ErrCodeInternal ''failed to count vendors'')))
   \<and> http_AddVendorContact unmapped empty_store gen_2 post_contact_1 =
       (empty_store, (500, ErrorBody (ErrorText (InvalidInput ''contact_type'' ''invalid contact type''))))
   \<and> http_UpdateBalance empty_store gen_2 post_balance_1 =
       (empty_store, (500, ErrorBody (ErrorText (NotFound ''vendor'' vendor_id_1))))
   \<and> toGRPCError (InvalidInput ''contact_type'' ''invalid contact type'') =
       StatusError Internal (ErrorText (InvalidInput ''contact_type'' ''invalid contact type''))
   \<and> grpc_CreateVendor unmapped store_1 gen_2 (Some caller_a) pb_create_2 =
       (store_1, Inl (StatusError Internal (ErrorText (AlreadyExists ''vendor'' ''V001''))))
   \<and> grpc_UpdateVendor unmapped empty_store gen_2 (Some caller_a) pb_update_1 =
       (empty_store, Inl (StatusError Internal (ErrorText (NotFound ''vendor'' vendor_id_1))))
   \<and> grpc_GetVendor empty_store None vendor_id_1 entity_a =
       Inl (StatusError Internal (ErrorText (NotFound ''vendor'' vendor_id_1)))
   \<and> grpc_DeleteVendor empty_store None vendor_id_1 entity_a =
       (empty_store, Inl (StatusError Internal (ErrorText (NotFound ''vendor'' vendor_id_1))))
   \<and> grpc_ListVendors empty_store None entity_a ''bogus'' [] False 0 0 =
       Inl (StatusError Internal
              (ErrorText (Wrap (InvalidEnumValue ''vendor_status'' ''bogus'') ErrCodeInternal
                            ''failed to count vendors'')))
   \<and> grpc_ActivateVendor empty_store gen_2 (Some caller_a) vendor_id_1 entity_a =
       (empty_store, Inl (StatusError Internal (ErrorText (NotFound ''vendor'' vendor_id_1))))
   \<and> grpc_DeactivateVendor empty_store gen_2 (Some caller_a) vendor_id_1 entity_a =
       (empty_store, Inl (StatusError Internal (ErrorText (NotFound ''vendor'' vendor_id_1))))
   \<and> grpc_ValidateVendor empty_store None vendor_id_1 entity_a =
       Inl (StatusError Internal (ErrorText (NotFound ''vendor'' vendor_id_1)))
   \<and> grpc_UpdateBalance empty_store gen_2 None vendor_id_1 entity_a 100 =
       (empty_store, Inl (StatusError Internal (ErrorText (NotFound ''vendor'' vendor_id_1))))"
proof -
  have create: "rq_Method post_create_2 = ''POST'' \<and> rq_Body post_create_2 = Some create_req_2
      \<and> svc_CreateVendor unmapped store_1 gen_2 create_req_2 = (store_1, Inl (AlreadyExists ''vendor'' ''V001''))"
    by (simp add: post_create_2_def dup_create_2)
  have update: "(rq_Method put_update_1 = ''PUT'' \<or> rq_Method put_update_1 = ''PATCH'')
      \<and> rq_Body put_update_1 = Some update_req_1
      \<and> svc_UpdateVendor unmapped empty_store gen_2 update_req_1 =
          (empty_store, Inl (NotFound ''vendor'' vendor_id_1))"
    by (simp add: put_update_1_def empty_store_errors)
  have delete: "rq_Method (vendor_query ''DELETE'') = ''DELETE''
      \<and> query_get (vendor_query ''DELETE'') ''id'' \<noteq> []
      \<and> query_get (vendor_query ''DELETE'') ''entity_id'' \<noteq> []
      \<and> svc_DeleteVendor empty_store (query_get (vendor_query ''DELETE'') ''id'')
            (query_get (vendor_query ''DELETE'') ''entity_id'') =
          (empty_store, Some (NotFound ''vendor'' vendor_id_1))"
    by (simp add: vendor_query_params ids_not_empty empty_store_errors)
  have get: "rq_Method (vendor_query ''GET'') = ''GET''
      \<and> query_get (vendor_query ''GET'') ''id'' \<noteq> []
      \<and> query_get (vendor_query ''GET'') ''entity_id'' \<noteq> []
      \<and> svc_GetVendor empty_store (query_get (vendor_query ''GET'') ''id'')
            (query_get (vendor_query ''GET'') ''entity_id'') = Inl (NotFound ''vendor'' vendor_id_1)"
    by (simp add: vendor_query_params ids_not_empty empty_store_errors)
  have by_code: "rq_Method (vendor_query ''GET'') = ''GET''
      \<and> query_get (vendor_query ''GET'') ''vendor_code'' \<noteq> []
      \<and> query_get (vendor_query ''GET'') ''entity_id'' \<noteq> []
      \<and> svc_GetVendorByCode empty_store (query_get (vendor_query ''GET'') ''vendor_code'')
            (query_get (vendor_query ''GET'') ''entity_id'') = Inl (NotFound ''vendor'' ''V001'')"
    by (simp add: vendor_query_params ids_not_empty empty_store_errors)
  have validate: "rq_Method (vendor_query ''GET'') = ''GET''
      \<and> query_get (vendor_query ''GET'') ''id'' \<noteq> []
      \<and> query_get (vendor_query ''GET'') ''entity_id'' \<noteq> []
      \<and> svc_ValidateVendor empty_store (query_get (vendor_query ''GET'') ''id'')
            (query_get (vendor_query ''GET'') ''entity_id'') =
          (False, ''vendor not found'', Some (NotFound ''vendor'' vendor_id_1))"
    by (simp add: vendor_query_params ids_not_empty empty_store_errors)
  have list: "rq_Method (vendor_query ''GET'') = ''GET''
      \<and> query_get (vendor_query ''GET'') ''entity_id'' \<noteq> []
      \<and> svc_ListVendors empty_store (query_get (vendor_query ''GET'') ''entity_id'')
            (optional_param (vendor_query ''GET'') ''status'')
            (optional_param (vendor_query ''GET'') ''vendor_type'')
            (query_get (vendor_query ''GET'') ''active_only'' = ''true'')
            (page_param (vendor_query ''GET'')) (page_size_param (vendor_query ''GET'')) =
          Inl (Wrap (InvalidEnumValue ''vendor_status'' ''bogus'') ErrCodeInternal
                 ''failed to count vendors'')"
    by (simp add: vendor_query_params ids_not_empty bogus_status_error)
  have contact: "rq_Method post_contact_1 = ''POST'' \<and> rq_Body post_contact_1 = Some contact_req_1
      \<and> svc_AddVendorContact unmapped empty_store gen_2 contact_req_1 =
          (empty_store, Inl (InvalidInput ''contact_type'' ''invalid contact type''))"
    by (simp add: post_contact_1_def boss_contact_error)
  let ?breq = "\<lparr>b_VendorID = vendor_id_1, b_EntityID = entity_a, b_Amount = 100\<rparr>"
  have balance: "rq_Method post_balance_1 = ''POST'' \<and> rq_Body post_balance_1 = Some ?breq
      \<and> b_VendorID ?breq \<noteq> [] \<and> b_EntityID ?breq \<noteq> []
      \<and> svc_UpdateBalance empty_store gen_2 (b_VendorID ?breq) (b_EntityID ?breq) (b_Amount ?breq) =
          (empty_store, Some (NotFound ''vendor'' vendor_id_1))"
    by (simp add: post_balance_1_def ids_not_empty empty_store_errors)
  have 1: "http_CreateVendor unmapped store_1 gen_2 post_create_2 =
     (store_1, (500, ErrorBody (ErrorText (AlreadyExists ''vendor'' ''V001''))))"
    by (rule C8_error_statuses [where rc = post_create_2 and creq = create_req_2 and db = store_1
        and g = gen_2 and db' = store_1 and err = "AlreadyExists ''vendor'' ''V001''", THEN conjunct2, THEN conjunct1, THEN mp, OF create])
  have 2: "http_UpdateVendor unmapped empty_store gen_2 put_update_1 =
       (empty_store, (500, ErrorBody (ErrorText (NotFound ''vendor'' vendor_id_1))))"
    by (rule C8_error_statuses [where ru = put_update_1 and ureq = update_req_1 and db = empty_store
        and g = gen_2 and db' = empty_store and err = "NotFound ''vendor'' vendor_id_1", THEN conjunct2, THEN conjunct2, THEN conjunct1, THEN mp, OF update])
  have 3: "http_DeleteVendor empty_store (vendor_query ''DELETE'') =
       (empty_store, (500, ErrorBody (ErrorText (NotFound ''vendor'' vendor_id_1))))"
    by (rule C8_error_statuses [where rd = "vendor_query ''DELETE''" and db = empty_store
        and db' = empty_store and err = "NotFound ''vendor'' vendor_id_1", THEN conjunct2, THEN conjunct2, THEN conjunct2, THEN conjunct1, THEN mp, OF delete])
  have 4: "http_GetVendor empty_store (vendor_query ''GET'') =
       (404, ErrorBody (ErrorText (NotFound ''vendor'' vendor_id_1)))"
    by (rule C8_error_statuses [where rg = "vendor_query ''GET''" and db = empty_store
        and err = "NotFound ''vendor'' vendor_id_1", THEN conjunct2, THEN conjunct2, THEN conjunct2, THEN conjunct2, THEN conjunct1, THEN mp, OF get])
  have 5: "http_GetVendorByCode empty_store (vendor_query ''GET'') =
       (404, ErrorBody (ErrorText (NotFound ''vendor'' ''V001'')))"
    by (rule C8_error_statuses [where rb = "vendor_query ''GET''" and db = empty_store
        and err = "NotFound ''vendor'' ''V001''", THEN conjunct2, THEN conjunct2, THEN conjunct2, THEN conjunct2, THEN conjunct2, THEN conjunct1, THEN mp, OF by_code])
  have 6: "http_ValidateVendor empty_store (vendor_query ''GET'') =
       (500, ErrorBody (ErrorText (NotFound ''vendor'' vendor_id_1)))"
    by (rule C8_error_statuses [where rv = "vendor_query ''GET''" and db = empty_store
        and valid = False and msg = "''vendor not found''"
        and err = "NotFound ''vendor'' vendor_id_1", THEN conjunct2, THEN conjunct2, THEN conjunct2, THEN conjunct2, THEN conjunct2, THEN conjunct2, THEN conjunct1, THEN mp, OF validate])
  have 7: "http_ListVendors empty_store (vendor_query ''GET'') =
       (500, ErrorBody (ErrorText (Wrap (InvalidEnumValue ''vendor_status'' ''bogus'')
                                     ErrCodeInternal ''failed to count vendors'')))"
    by (rule C8_error_statuses [where rl = "vendor_query ''GET''" and db = empty_store
        and err = "Wrap (InvalidEnumValue ''vendor_status'' ''bogus'') ErrCodeInternal
                     ''failed to count vendors''", THEN conjunct2, THEN conjunct2, THEN conjunct2, THEN conjunct2, THEN conjunct2, THEN conjunct2, THEN conjunct2, THEN conjunct1, THEN mp, OF list])
  have 8: "http_AddVendorContact unmapped empty_store gen_2 post_contact_1 =
       (empty_store, (500, ErrorBody (ErrorText (InvalidInput ''contact_type'' ''invalid contact type''))))"
    by (rule C8_error_statuses [where ra = post_contact_1 and areq = contact_req_1 and db = empty_store
        and g = gen_2 and db' = empty_store
        and err = "InvalidInput ''contact_type'' ''invalid contact type''", THEN conjunct2, THEN conjunct2, THEN conjunct2, THEN conjunct2, THEN conjunct2, THEN conjunct2, THEN conjunct2, THEN conjunct2, THEN conjunct1, THEN mp, OF contact])
  have 9: "http_UpdateBalance empty_store gen_2 post_balance_1 =
       (empty_store, (500, ErrorBody (ErrorText (NotFound ''vendor'' vendor_id_1))))"
    by (rule C8_error_statuses [where rx = post_balance_1 and breq = ?breq and db = empty_store
        and g = gen_2 and db' = empty_store and err = "NotFound ''vendor'' vendor_id_1", THEN conjunct2, THEN conjunct2, THEN conjunct2, THEN conjunct2, THEN conjunct2, THEN conjunct2, THEN conjunct2, THEN conjunct2, THEN conjunct2, THEN conjunct1, THEN mp, OF balance])
  have 10: "toGRPCError (InvalidInput ''contact_type'' ''invalid contact type'') =
       StatusError Internal (ErrorText (InvalidInput ''contact_type'' ''invalid contact type''))"
    by (rule C8_error_statuses [THEN conjunct1])
  have caller: "uc_EntityID caller_a = entity_a" "uc_UserID caller_a = user_1"
    by (simp_all add: caller_a_def)
  have rpc_create: "Some caller_a = Some caller_a \<and> pc_EntityId pb_create_2 = uc_EntityID caller_a
      \<and> svc_CreateVendor unmapped store_1 gen_2 (create_svcReq caller_a pb_create_2) =
          (store_1, Inl (AlreadyExists ''vendor'' ''V001''))"
    by (simp add: caller pb_create_2_fields rpc_dup_create)
  have pu_entity: "pu_EntityId pb_update_1 = entity_a"
    by (simp add: pb_update_1_def)
  have rpc_update: "Some caller_a = Some caller_a \<and> pu_EntityId pb_update_1 = uc_EntityID caller_a
      \<and> svc_UpdateVendor unmapped empty_store gen_2 (update_svcReq caller_a pb_update_1) =
          (empty_store, Inl (NotFound ''vendor'' vendor_id_1))"
    using rpc_empty_store_errors(1) [of unmapped]
    by (simp add: caller pu_entity)
  have rpc_list: "svc_ListVendors empty_store entity_a
        (if ''bogus'' \<noteq> [] then Some ''bogus'' else None)
        (if ([]::string) \<noteq> [] then Some [] else None) False
        (if (0::int) \<le> 0 then 1 else 0) (if (0::int) \<le> 0 then 20 else 0) =
          Inl (Wrap (InvalidEnumValue ''vendor_status'' ''bogus'') ErrCodeInternal
                 ''failed to count vendors'')"
    by (simp add: bogus_status_error)
  have rpc_activate: "Some caller_a = Some caller_a \<and> entity_a = uc_EntityID caller_a
      \<and> svc_ActivateVendor empty_store gen_2 vendor_id_1 entity_a (uc_UserID caller_a) =
          (empty_store, Some (NotFound ''vendor'' vendor_id_1))"
    by (simp add: caller rpc_empty_store_errors)
  have rpc_deactivate: "Some caller_a = Some caller_a \<and> entity_a = uc_EntityID caller_a
      \<and> svc_DeactivateVendor empty_store gen_2 vendor_id_1 entity_a (uc_UserID caller_a) =
          (empty_store, Some (NotFound ''vendor'' vendor_id_1))"
    by (simp add: caller rpc_empty_store_errors)
  have 11: "grpc_CreateVendor unmapped store_1 gen_2 (Some caller_a) pb_create_2 =
       (store_1, Inl (StatusError Internal (ErrorText (AlreadyExists ''vendor'' ''V001''))))"
    by (rule C8_error_statuses [where ctx = "Some caller_a" and userCtx = caller_a
        and pcreq = pb_create_2 and db = store_1 and g = gen_2 and db' = store_1
        and err = "AlreadyExists ''vendor'' ''V001''", THEN conjunct2, THEN conjunct2, THEN conjunct2, THEN conjunct2, THEN conjunct2, THEN conjunct2, THEN conjunct2, THEN conjunct2, THEN conjunct2, THEN conjunct2, THEN conjunct1, THEN mp, OF rpc_create])
  have 12: "grpc_UpdateVendor unmapped empty_store gen_2 (Some caller_a) pb_update_1 =
       (empty_store, Inl (StatusError Internal (ErrorText (NotFound ''vendor'' vendor_id_1))))"
    by (rule C8_error_statuses [where ctx = "Some caller_a" and userCtx = caller_a
        and pureq = pb_update_1 and db = empty_store and g = gen_2 and db' = empty_store
        and err = "NotFound ''vendor'' vendor_id_1", THEN conjunct2, THEN conjunct2, THEN conjunct2, THEN conjunct2, THEN conjunct2, THEN conjunct2, THEN conjunct2, THEN conjunct2, THEN conjunct2, THEN conjunct2, THEN conjunct2, THEN conjunct1, THEN mp, OF rpc_update])
  have 13: "grpc_GetVendor empty_store None vendor_id_1 entity_a =
       Inl (StatusError Internal (ErrorText (NotFound ''vendor'' vendor_id_1)))"
    by (rule C8_error_statuses [where ctx = None and vendorId = vendor_id_1
        and entityId = entity_a and db = empty_store
        and err = "NotFound ''vendor'' vendor_id_1", THEN conjunct2, THEN conjunct2, THEN conjunct2, THEN conjunct2, THEN conjunct2, THEN conjunct2, THEN conjunct2, THEN conjunct2, THEN conjunct2, THEN conjunct2, THEN conjunct2, THEN conjunct2, THEN conjunct1, THEN mp,
        OF empty_store_errors(3)])
  have 14: "grpc_DeleteVendor empty_store None vendor_id_1 entity_a =
       (empty_store, Inl (StatusError Internal (ErrorText (NotFound ''vendor'' vendor_id_1))))"
    by (rule C8_error_statuses [where ctx = None and vendorId = vendor_id_1
        and entityId = entity_a and db = empty_store and db' = empty_store
        and err = "NotFound ''vendor'' vendor_id_1", THEN conjunct2, THEN conjunct2, THEN conjunct2, THEN conjunct2, THEN conjunct2, THEN conjunct2, THEN conjunct2, THEN conjunct2, THEN conjunct2, THEN conjunct2, THEN conjunct2, THEN conjunct2, THEN conjunct2, THEN conjunct1, THEN mp,
        OF empty_store_errors(2)])
  have 15: "grpc_ListVendors empty_store None entity_a ''bogus'' [] False 0 0 =
       Inl (StatusError Internal
              (ErrorText (Wrap (InvalidEnumValue ''vendor_status'' ''bogus'') ErrCodeInternal
                            ''failed to count vendors'')))"
    by (rule C8_error_statuses [where ctx = None and entityId = entity_a
        and status = "''bogus''" and vendorType = "[]" and activeOnly = False
        and page = 0 and pageSize = 0 and db = empty_store
        and err = "Wrap (InvalidEnumValue ''vendor_status'' ''bogus'') ErrCodeInternal
                     ''failed to count vendors''", THEN conjunct2, THEN conjunct2, THEN conjunct2, THEN conjunct2, THEN conjunct2, THEN conjunct2, THEN conjunct2, THEN conjunct2, THEN conjunct2, THEN conjunct2, THEN conjunct2, THEN conjunct2, THEN conjunct2, THEN conjunct2, THEN conjunct1, THEN mp, OF rpc_list])
  have 16: "grpc_ActivateVendor empty_store gen_2 (Some caller_a) vendor_id_1 entity_a =
       (empty_store, Inl (StatusError Internal (ErrorText (NotFound ''vendor'' vendor_id_1))))"
    by (rule C8_error_statuses [where ctx = "Some caller_a" and userCtx = caller_a
        and vendorId = vendor_id_1 and entityId = entity_a and db = empty_store and g = gen_2
        and db' = empty_store and err = "NotFound ''vendor'' vendor_id_1", THEN conjunct2, THEN conjunct2, THEN conjunct2, THEN conjunct2, THEN conjunct2, THEN conjunct2, THEN conjunct2, THEN conjunct2, THEN conjunct2, THEN conjunct2, THEN conjunct2, THEN conjunct2, THEN conjunct2, THEN conjunct2, THEN conjunct2, THEN conjunct1, THEN mp,
        OF rpc_activate])
  have 17: "grpc_DeactivateVendor empty_store gen_2 (Some caller_a) vendor_id_1 entity_a =
       (empty_store, Inl (StatusError Internal (ErrorText (NotFound ''vendor'' vendor_id_1))))"
    by (rule C8_error_statuses [where ctx = "Some caller_a" and userCtx = caller_a
        and vendorId = vendor_id_1 and entityId = entity_a and db = empty_store and g = gen_2
        and db' = empty_store and err = "NotFound ''vendor'' vendor_id_1", THEN conjunct2, THEN conjunct2, THEN conjunct2, THEN conjunct2, THEN conjunct2, THEN conjunct2, THEN conjunct2, THEN conjunct2, THEN conjunct2, THEN conjunct2, THEN conjunct2, THEN conjunct2, THEN conjunct2, THEN conjunct2, THEN conjunct2, THEN conjunct2, THEN conjunct1, THEN mp,
        OF rpc_deactivate])
  have 18: "grpc_ValidateVendor empty_store None vendor_id_1 entity_a =
       Inl (StatusError Internal (ErrorText (NotFound ''vendor'' vendor_id_1)))"
    by (rule C8_error_statuses [where ctx = None and vendorId = vendor_id_1
        and entityId = entity_a and db = empty_store and valid = False
        and msg = "''vendor not found''"
        and err = "NotFound ''vendor'' vendor_id_1", THEN conjunct2, THEN conjunct2, THEN conjunct2, THEN conjunct2, THEN conjunct2, THEN conjunct2, THEN conjunct2, THEN conjunct2, THEN conjunct2, THEN conjunct2, THEN conjunct2, THEN conjunct2, THEN conjunct2, THEN conjunct2, THEN conjunct2, THEN conjunct2, THEN conjunct2, THEN conjunct1, THEN mp,
        OF empty_store_errors(5)])
  have 19: "grpc_UpdateBalance empty_store gen_2 None vendor_id_1 entity_a 100 =
       (empty_store, Inl (StatusError Internal (ErrorText (NotFound ''vendor'' vendor_id_1))))"
    by (rule C8_error_statuses [where ctx = None and vendorId = vendor_id_1
        and entityId = entity_a and amount = 100 and db = empty_store and g = gen_2
        and db' = empty_store and err = "NotFound ''vendor'' vendor_id_1", THEN conjunct2, THEN conjunct2, THEN conjunct2, THEN conjunct2, THEN conjunct2, THEN conjunct2, THEN conjunct2, THEN conjunct2, THEN conjunct2, THEN conjunct2, THEN conjunct2, THEN conjunct2, THEN conjunct2, THEN conjunct2, THEN conjunct2, THEN conjunct2, THEN conjunct2, THEN conjunct2, THEN mp,
        OF empty_store_errors(6)])
  show ?thesis
    by (intro conjI 1 2 3 4 5 6 7 8 9 10 11 12 13 14 15 16 17 18 19)
qed


text \<open>\<^verbatim>\<open>int64Ptr\<close> has no way to return a pointer to 0.\<close>

subsection \<open>A credit limit of zero over gRPC\<close>

text \<open>
  \<^verbatim>\<open>int64Ptr\<close> has no way to return a pointer to 0.
\<close>

lemma int64Ptr_zero: "int64Ptr i = None \<longleftrightarrow> i = 0" "int64Ptr i \<noteq> Some 0"
  by (simp_all add: int64Ptr_def)

lemma svcReq_credit_limit:
  "c_CreditLimit (create_svcReq userCtx creq) = int64Ptr (pc_CreditLimit creq)"
  "u_CreditLimit (update_svcReq userCtx ureq) = int64Ptr (pu_CreditLimit ureq)"
  "c_EntityID (create_svcReq userCtx creq) = pc_EntityId creq"
  "u_EntityID (update_svcReq userCtx ureq) = pu_EntityId ureq"
  "u_ID (update_svcReq userCtx ureq) = pu_Id ureq"
  by (simp_all add: create_svcReq_def update_svcReq_def)

lemma grpc_CreateVendor_success:
  assumes "grpc_CreateVendor U db g ctx creq = (db', Inr pv)"
  shows "\<exists>userCtx vendor. svc_CreateVendor U db g (create_svcReq userCtx creq) = (db', Inr vendor)
           \<and> pv = vendorToProto vendor"
  using assms
  by (auto simp: grpc_CreateVendor_def split: option.splits if_splits prod.splits sum.splits)

lemma grpc_UpdateVendor_success:
  assumes "grpc_UpdateVendor U db g ctx ureq = (db', Inr pv)"
  shows "\<exists>userCtx vendor. svc_UpdateVendor U db g (update_svcReq userCtx ureq) = (db', Inr vendor)
           \<and> pv = vendorToProto vendor"
  using assms
  by (auto simp: grpc_UpdateVendor_def split: option.splits if_splits prod.splits sum.splits)

lemma created_row:
  assumes "svc_CreateVendor U db g req = (db', Inr vendor)"
  shows "repo_GetByID db' (ID vendor) (c_EntityID req) =
           Inr (inserted_row g (new_vendor U req (ToLower U (c_VendorType req))))"
proof -
  let ?v = "new_vendor U req (ToLower U (c_VendorType req))"
  let ?row = "inserted_row g ?v"
  note created = repo_Create_success [OF svc_CreateVendor_success [OF assms]]
  have fresh: "\<not> list_ex (\<lambda>r. ID r = gen_id g \<and> EntityID r = c_EntityID req) (vendors db)"
    using constraints_fresh_id [OF created(3)]
    by (simp add: inserted_row_def list_ex_iff)
  have "find (\<lambda>r. ID r = gen_id g \<and> EntityID r = c_EntityID req) (vendors db @ [?row]) = Some ?row"
    by (rule find_append_fresh [OF fresh]) (simp add: inserted_row_def new_vendor_def)
  then show ?thesis
    using created(1,2) by (simp add: repo_GetByID_def)
qed

lemma updated_row_stored:
  assumes "svc_UpdateVendor U db g req = (db', Inr vendor)"
  shows "\<exists>row. repo_GetByID db' (u_ID req) (u_EntityID req) = Inr row
           \<and> CreditLimit row = u_CreditLimit req
           \<and> Status row = ToLower U (u_Status req)"
proof -
  from svc_UpdateVendor_success [OF assms] obtain old
    where old: "repo_GetByID db (u_ID req) (u_EntityID req) = Inr old"
      and upd: "repo_Update db g
                  (apply_update U req (ToLower U (u_VendorType req)) (ToLower U (u_Status req)) old)
                = (db', Inr vendor)"
    by blast
  let ?v = "apply_update U req (ToLower U (u_VendorType req)) (ToLower U (u_Status req)) old"
  from old have found_old: "find (row_is (u_ID req) (u_EntityID req)) (vendors db) = Some old"
    by (simp add: GetByID_find)
  from find_Some_holds [OF found_old] have "ID ?v = u_ID req" "EntityID ?v = u_EntityID req"
    by (simp_all add: row_is_def apply_update_frame)
  then have store: "vendors db' = map (\<lambda>r. if row_is (u_ID req) (u_EntityID req) r
                                     then updated_row g ?v r else r) (vendors db)"
    using repo_Update_success(2) [OF upd] by simp
  have "find (row_is (u_ID req) (u_EntityID req)) (vendors db') = Some (updated_row g ?v old)"
    unfolding store by (rule find_map_update [OF found_old]) (simp add: row_is_def updated_row_frame)
  then have "repo_GetByID db' (u_ID req) (u_EntityID req) = Inr (updated_row g ?v old)"
    by (simp only: GetByID_find)
  moreover have "CreditLimit (updated_row g ?v old) = u_CreditLimit req"
    "Status (updated_row g ?v old) = ToLower U (u_Status req)"
    by (simp_all add: updated_row_def apply_update_def)
  ultimately show ?thesis by blast
qed

lemma no_limit_valid:
  assumes "repo_GetByID db vendorID entityID = Inr v"
      and "CreditLimit v = None" and "Status v = ''active''"
  shows "svc_ValidateVendor db vendorID entityID = (True, [], None)"
  unfolding svc_ValidateVendor_def ValidateVendor_found [OF assms(1)]
  using assms(2,3) by simp

text \<open>
  Claim C9. A gRPC \<^verbatim>\<open>CreateVendor\<close> or \<^verbatim>\<open>UpdateVendor\<close> request with
  \<^verbatim>\<open>credit_limit = 0\<close> reaches the service with no credit limit at all. So the
  row a successful call stores never has the limit 0; with 0 in the request it
  has none, and once such a vendor is active \<^verbatim>\<open>ValidateVendor\<close> accepts it
  whatever its balance.
\<close>

theorem C9_zero_credit_limit_is_absent:
  "(pc_CreditLimit creq = 0 \<longrightarrow> c_CreditLimit (create_svcReq userCtx creq) = None)
   \<and> (pu_CreditLimit ureq = 0 \<longrightarrow> u_CreditLimit (update_svcReq userCtx ureq) = None)
   \<and> (grpc_CreateVendor U db g ctx creq = (db', Inr pv) \<longrightarrow>
        (\<exists>row. repo_GetByID db' (pv_Id pv) (pc_EntityId creq) = Inr row
              \<and> CreditLimit row \<noteq> Some 0
              \<and> (pc_CreditLimit creq = 0 \<longrightarrow> CreditLimit row = None)))
   \<and> (grpc_UpdateVendor U db g ctx ureq = (db', Inr pv) \<longrightarrow>
        (\<exists>row. repo_GetByID db' (pu_Id ureq) (pu_EntityId ureq) = Inr row
              \<and> CreditLimit row \<noteq> Some 0
              \<and> (pu_CreditLimit ureq = 0 \<longrightarrow> CreditLimit row = None
                    \<and> (ToLower U (pu_Status ureq) = ''active'' \<longrightarrow>
                          svc_ValidateVendor db' (pu_Id ureq) (pu_EntityId ureq) = (True, [], None)))))"
proof -
  have create_req: "pc_CreditLimit creq = 0 \<longrightarrow> c_CreditLimit (create_svcReq userCtx creq) = None"
    by (simp add: svcReq_credit_limit int64Ptr_zero)
  have update_req: "pu_CreditLimit ureq = 0 \<longrightarrow> u_CreditLimit (update_svcReq userCtx ureq) = None"
    by (simp add: svcReq_credit_limit int64Ptr_zero)
  have create: "grpc_CreateVendor U db g ctx creq = (db', Inr pv) \<longrightarrow>
        (\<exists>row. repo_GetByID db' (pv_Id pv) (pc_EntityId creq) = Inr row
              \<and> CreditLimit row \<noteq> Some 0
              \<and> (pc_CreditLimit creq = 0 \<longrightarrow> CreditLimit row = None))"
  proof
    assume "grpc_CreateVendor U db g ctx creq = (db', Inr pv)"
    from grpc_CreateVendor_success [OF this] obtain caller vendor
      where ok: "svc_CreateVendor U db g (create_svcReq caller creq) = (db', Inr vendor)"
        and pv: "pv = vendorToProto vendor"
      by blast
    let ?row = "inserted_row g (new_vendor U (create_svcReq caller creq)
                  (ToLower U (c_VendorType (create_svcReq caller creq))))"
    have "repo_GetByID db' (pv_Id pv) (pc_EntityId creq) = Inr ?row"
      using created_row [OF ok] by (simp add: pv vendorToProto_def svcReq_credit_limit)
    moreover have "CreditLimit ?row = int64Ptr (pc_CreditLimit creq)"
      by (simp add: inserted_row_def new_vendor_def svcReq_credit_limit)
    ultimately show "\<exists>row. repo_GetByID db' (pv_Id pv) (pc_EntityId creq) = Inr row
              \<and> CreditLimit row \<noteq> Some 0
              \<and> (pc_CreditLimit creq = 0 \<longrightarrow> CreditLimit row = None)"
      by (simp add: int64Ptr_zero)
  qed
  have update: "grpc_UpdateVendor U db g ctx ureq = (db', Inr pv) \<longrightarrow>
        (\<exists>row. repo_GetByID db' (pu_Id ureq) (pu_EntityId ureq) = Inr row
              \<and> CreditLimit row \<noteq> Some 0
              \<and> (pu_CreditLimit ureq = 0 \<longrightarrow> CreditLimit row = None
                    \<and> (ToLower U (pu_Status ureq) = ''active'' \<longrightarrow>
                          svc_ValidateVendor db' (pu_Id ureq) (pu_EntityId ureq) = (True, [], None))))"
  proof
    assume "grpc_UpdateVendor U db g ctx ureq = (db', Inr pv)"
    from grpc_UpdateVendor_success [OF this] obtain caller vendor
      where ok: "svc_UpdateVendor U db g (update_svcReq caller ureq) = (db', Inr vendor)"
      by blast
    from updated_row_stored [OF ok] obtain row
      where row: "repo_GetByID db' (pu_Id ureq) (pu_EntityId ureq) = Inr row"
        and limit: "CreditLimit row = int64Ptr (pu_CreditLimit ureq)"
        and status: "Status row = ToLower U (pu_Status ureq)"
      by (auto simp: svcReq_credit_limit update_svcReq_def)
    have "svc_ValidateVendor db' (pu_Id ureq) (pu_EntityId ureq) = (True, [], None)"
      if "pu_CreditLimit ureq = 0" "ToLower U (pu_Status ureq) = ''active''"
      using no_limit_valid [OF row] limit status that by (simp add: int64Ptr_zero)
    with row limit
    show "\<exists>row. repo_GetByID db' (pu_Id ureq) (pu_EntityId ureq) = Inr row
              \<and> CreditLimit row \<noteq> Some 0
              \<and> (pu_CreditLimit ureq = 0 \<longrightarrow> CreditLimit row = None
                    \<and> (ToLower U (pu_Status ureq) = ''active'' \<longrightarrow>
                          svc_ValidateVendor db' (pu_Id ureq) (pu_EntityId ureq) = (True, [], None)))"
      by (simp add: int64Ptr_zero)
  qed
  show ?thesis
    by (intro conjI create_req update_req create update)
qed

text \<open>
  The sample vendor, whose balance equals its limit, updated over gRPC with
  \<^verbatim>\<open>credit_limit = 0\<close>, and a vendor created over gRPC with \<^verbatim>\<open>credit_limit = 0\<close>.
\<close>

lemma update_svcReq_1:
  "apply_update U (update_svcReq caller_a pb_update_1) ''supplier'' ''active'' sample_vendor
     = unlimited_vendor\<lparr>UpdatedAt := UpdatedAt sample_vendor\<rparr>"
  by (simp add: apply_update_def update_svcReq_def pb_update_1_def unlimited_vendor_def
        sample_vendor_def caller_a_def stringPtr_def int64Ptr_def string_eval)

lemma pb_update_1_fields:
  "pu_Id pb_update_1 = vendor_id_1" "pu_EntityId pb_update_1 = entity_a"
  "pu_VendorCode pb_update_1 = ''V001''" "pu_VendorType pb_update_1 = ''supplier''"
  "pu_Status pb_update_1 = ''active''" "pu_CreditLimit pb_update_1 = 0"
  by (simp_all add: pb_update_1_def)

lemma update_svcReq_1_fields:
  "u_ID (update_svcReq caller_a pb_update_1) = vendor_id_1"
  "u_EntityID (update_svcReq caller_a pb_update_1) = entity_a"
  "u_VendorCode (update_svcReq caller_a pb_update_1) = ''V001''"
  "u_VendorType (update_svcReq caller_a pb_update_1) = ''supplier''"
  "u_Status (update_svcReq caller_a pb_update_1) = ''active''"
  "u_CreditLimit (update_svcReq caller_a pb_update_1) = None"
  by (simp_all add: update_svcReq_def pb_update_1_def int64Ptr_def)

lemma ToLower_active: "ToLower U ''active'' = ''active''"
  by (simp add: string_eval)

lemma grpc_update_1:
  "grpc_UpdateVendor U sample_store gen_2 (Some caller_a) pb_update_1 =
     (sample_store\<lparr>vendors := [unlimited_vendor]\<rparr>, Inr (vendorToProto unlimited_vendor))"
proof -
  let ?v = "unlimited_vendor\<lparr>UpdatedAt := UpdatedAt sample_vendor\<rparr>"
  have fields: "ID ?v = vendor_id_1" "EntityID ?v = entity_a" "VendorCode sample_vendor = ''V001''"
    by (simp_all add: unlimited_vendor_def sample_vendor_def)
  have casts: "vendor_casts ?v = None"
    by (simp add: enum_eval unlimited_vendor_def sample_vendor_def)
  have row: "updated_row gen_2 ?v sample_vendor = unlimited_vendor"
    by (simp add: updated_row_def unlimited_vendor_def sample_vendor_def)
  have ok: "vendor_constraints [] unlimited_vendor = None"
    by (simp add: vendor_constraints_def unlimited_vendor_def sample_vendor_def)
  have "repo_Update sample_store gen_2 ?v =
          (sample_store\<lparr>vendors := [unlimited_vendor]\<rparr>, Inr unlimited_vendor)"
    by (simp add: repo_Update_def casts fields row_is_def sample_store_def empty_store_def row ok
          sample_vendor_key)
       (simp add: unlimited_vendor_def)
  then have "svc_UpdateVendor U sample_store gen_2 (update_svcReq caller_a pb_update_1) =
          (sample_store\<lparr>vendors := [unlimited_vendor]\<rparr>, Inr unlimited_vendor)"
    by (simp add: svc_UpdateVendor_def sample_GetByID update_svcReq_1_fields fields
          ToLower_samples ToLower_active update_svcReq_1)
  moreover have "uc_EntityID caller_a = entity_a"
    by (simp add: caller_a_def)
  ultimately show ?thesis
    by (simp add: grpc_UpdateVendor_def pb_update_1_fields)
qed

lemma create_svcReq_1: "create_svcReq caller_a pb_create_1 = create_req_1\<lparr>c_CreditLimit := None\<rparr>"
  by (simp add: create_svcReq_def pb_create_1_def create_req_1_def caller_a_def stringPtr_def
        int64Ptr_def)

lemma grpc_create_1:
  "grpc_CreateVendor U empty_store gen_1 (Some caller_a) pb_create_1 =
     (empty_store\<lparr>vendors := [created_1\<lparr>CreditLimit := None\<rparr>]\<rparr>,
      Inr (vendorToProto (created_1\<lparr>CreditLimit := None\<rparr>)))"
proof -
  let ?req = "create_req_1\<lparr>c_CreditLimit := None\<rparr>"
  have fields: "c_EntityID ?req = entity_a" "c_VendorCode ?req = ''v001''"
    "c_VendorType ?req = ''Supplier''" "c_Currency ?req = ''usd''"
    "c_Country ?req = ''us''" "c_CreditLimit ?req = None"
    by (simp_all add: create_req_1_def)
  have low: "ToLower U ''Supplier'' = ''supplier''"
    by (simp add: string_eval)
  have new: "new_vendor U ?req ''supplier'' = (new_vendor U create_req_1 ''supplier'')\<lparr>CreditLimit := None\<rparr>"
    by (simp add: new_vendor_def)
  have row: "inserted_row gen_1 (new_vendor U ?req ''supplier'') = created_1\<lparr>CreditLimit := None\<rparr>"
    "(new_vendor U ?req ''supplier'')\<lparr>ID := gen_id gen_1, CreatedAt := gen_now gen_1,
        UpdatedAt := gen_now gen_1\<rparr> = created_1\<lparr>CreditLimit := None\<rparr>"
    by (simp_all add: new_vendor_def create_req_1_def inserted_row_def gen_1_def created_1_def
          sample_vendor_def string_eval)
  have casts: "vendor_casts (new_vendor U ?req ''supplier'') = None"
    by (simp add: enum_eval new_vendor_def create_req_1_def)
  have ok: "vendor_constraints [] (created_1\<lparr>CreditLimit := None\<rparr>) = None"
    by (simp add: vendor_constraints_def created_1_fields)
  have "repo_Create empty_store gen_1 (new_vendor U ?req ''supplier'') =
          (empty_store\<lparr>vendors := [created_1\<lparr>CreditLimit := None\<rparr>]\<rparr>,
           Inr (created_1\<lparr>CreditLimit := None\<rparr>))"
    by (simp add: repo_Create_def casts row empty_store_def ok)
  moreover have "repo_GetByCode empty_store ''v001'' entity_a = Inl (NotFound ''vendor'' ''v001'')"
    by (simp add: repo_GetByCode_def empty_store_def)
  ultimately have "svc_CreateVendor U empty_store gen_1 ?req =
          (empty_store\<lparr>vendors := [created_1\<lparr>CreditLimit := None\<rparr>]\<rparr>,
           Inr (created_1\<lparr>CreditLimit := None\<rparr>))"
    by (simp add: svc_CreateVendor_def fields validTypes_def low)
  moreover have "pc_EntityId pb_create_1 = entity_a" "uc_EntityID caller_a = entity_a"
    by (simp_all add: pb_create_1_def caller_a_def)
  ultimately show ?thesis
    by (simp add: grpc_CreateVendor_def create_svcReq_1)
qed

theorem C9_zero_credit_limit_is_absent_witness:
  "pc_CreditLimit pb_create_1 = 0 \<and> pu_CreditLimit pb_update_1 = 0
   \<and> c_CreditLimit (create_svcReq caller_a pb_create_1) = None
   \<and> u_CreditLimit (update_svcReq caller_a pb_update_1) = None
   \<and> grpc_CreateVendor unmapped empty_store gen_1 (Some caller_a) pb_create_1 =
       (empty_store\<lparr>vendors := [created_1\<lparr>CreditLimit := None\<rparr>]\<rparr>,
        Inr (vendorToProto (created_1\<lparr>CreditLimit := None\<rparr>)))
   \<and> grpc_UpdateVendor unmapped sample_store gen_2 (Some caller_a) pb_update_1 =
       (sample_store\<lparr>vendors := [unlimited_vendor]\<rparr>, Inr (vendorToProto unlimited_vendor))
   \<and> CurrentBalance unlimited_vendor = 5000000 \<and> CreditLimit unlimited_vendor = None
   \<and> svc_ValidateVendor (sample_store\<lparr>vendors := [unlimited_vendor]\<rparr>) vendor_id_1 entity_a
       = (True, [], None)"
proof -
  have zero: "pc_CreditLimit pb_create_1 = 0" "pu_CreditLimit pb_update_1 = 0"
    by (simp_all add: pb_create_1_def pb_update_1_def)
  note inst = C9_zero_credit_limit_is_absent [of pb_create_1 caller_a pb_update_1]
  have c: "c_CreditLimit (create_svcReq caller_a pb_create_1) = None"
    by (rule inst [THEN conjunct1, THEN mp, OF zero(1)])
  have u: "u_CreditLimit (update_svcReq caller_a pb_update_1) = None"
    by (rule inst [THEN conjunct2, THEN conjunct1, THEN mp, OF zero(2)])
  from C9_zero_credit_limit_is_absent [where ureq = pb_update_1 and db = sample_store
      and g = gen_2 and ctx = "Some caller_a" and db' = "sample_store\<lparr>vendors := [unlimited_vendor]\<rparr>"
      and pv = "vendorToProto unlimited_vendor",
      THEN conjunct2, THEN conjunct2, THEN conjunct2, THEN mp, OF grpc_update_1]
  have "pu_CreditLimit pb_update_1 = 0 \<longrightarrow>
      (ToLower unmapped (pu_Status pb_update_1) = ''active'' \<longrightarrow>
            svc_ValidateVendor (sample_store\<lparr>vendors := [unlimited_vendor]\<rparr>)
              (pu_Id pb_update_1) (pu_EntityId pb_update_1) = (True, [], None))"
    by blast
  then have v: "svc_ValidateVendor (sample_store\<lparr>vendors := [unlimited_vendor]\<rparr>) vendor_id_1 entity_a
       = (True, [], None)"
    by (simp add: pb_update_1_fields ToLower_active)
  from C9_zero_credit_limit_is_absent [where creq = pb_create_1 and db = empty_store
      and g = gen_1 and ctx = "Some caller_a"
      and db' = "empty_store\<lparr>vendors := [created_1\<lparr>CreditLimit := None\<rparr>]\<rparr>"
      and pv = "vendorToProto (created_1\<lparr>CreditLimit := None\<rparr>)",
      THEN conjunct2, THEN conjunct2, THEN conjunct1, THEN mp, OF grpc_create_1]
  have "\<exists>row :: Vendor. CreditLimit row \<noteq> Some 0"
    by blast
  have b: "CurrentBalance unlimited_vendor = 5000000" "CreditLimit unlimited_vendor = None"
    by (simp_all add: unlimited_vendor_def sample_vendor_def)
  show ?thesis
    by (intro conjI zero c u grpc_create_1 grpc_update_1 b v)
qed

end
